theory Spec2Isabelle
  imports Complex_Main "HOL-Library.Monad_Syntax"
begin

section \<open>Python values, exceptions and built-in operations\<close>

text \<open>
  The two Lambda handlers of \<^verbatim>\<open>week6/3-document-extractor\<close> work on JSON data: the event, the
  object that \<^verbatim>\<open>json.loads\<close> returns and the dictionary the handler returns. A JSON value is
  Python's \<^verbatim>\<open>None\<close>, a bool, an int, a float, a str, a list or a dict. Floats are kept abstract
  (the type parameter); a dict is an association list in insertion order, looked up with
  \<open>map_of\<close>. Text and document bytes are lists of characters.
\<close>

datatype 'f json =
    JNull
  | JBool bool
  | JInt int
  | JFloat 'f
  | JStr string
  | JArr "'f json list"
  | JObj "(string \<times> 'f json) list"

type_synonym 'f dict = "(string \<times> 'f json) list"

text \<open>
  Exceptions carry the text that \<^verbatim>\<open>str(e)\<close> gives. \<open>KeyError\<close> holds the \<^verbatim>\<open>repr\<close> of the
  missing key, which is what \<^verbatim>\<open>str\<close> of a \<^verbatim>\<open>KeyError\<close> prints. \<open>LibraryError\<close> is an exception
  raised inside boto3, strands, json or pydantic: its class name and its text.
\<close>

datatype exn =
    KeyError string
  | IndexError string
  | TypeError string
  | ValueError string
  | LibraryError string string

fun str_exn :: "exn \<Rightarrow> string" where
  "str_exn (KeyError r) = r"
| "str_exn (IndexError m) = m"
| "str_exn (TypeError m) = m"
| "str_exn (ValueError m) = m"
| "str_exn (LibraryError c m) = m"

text \<open>
  What the handlers get from outside: the object store, the inference agent, the JSON
  parser and serialiser, pydantic's lax coercions and its error, and the two float
  operations the handlers can reach. A test stub fixes each of them.
  \<^item> \<open>get_object env bucket key\<close> is \<^verbatim>\<open>s3_client.get_object(Bucket=bucket, Key=key)["Body"].read()\<close>;
  \<^item> \<open>agent env document\<close> is \<^verbatim>\<open>str(agent([{"text": prompt}, {"document": ...}],
    structured_output_model=...))\<close> of this invocation, the prompt and the output model being
    fixed per stage;
  \<^item> \<open>json_loads env s\<close> is \<^verbatim>\<open>json.loads(s)\<close>;
  \<^item> \<open>json_dumps env v\<close> is \<^verbatim>\<open>json.dumps(v)\<close>, which raises for some values (a
    \<^verbatim>\<open>ValueError\<close> for an int beyond the interpreter's digit limit, a \<^verbatim>\<open>RecursionError\<close> for
    deep nesting);
  \<^item> \<open>lax_bool\<close>, \<open>lax_str\<close>, \<open>lax_float\<close> are pydantic's conversions of a value that is
    not already of the field's type (\<open>None\<close>: rejected);
  \<^item> \<open>pydantic_error env model kwargs\<close> is the \<^verbatim>\<open>ValidationError\<close> pydantic raises for these
    keyword arguments;
  \<^item> \<open>float_truthy env f\<close> is \<^verbatim>\<open>bool(f)\<close> and \<open>float_add_int env f n\<close> is \<^verbatim>\<open>f + n\<close>.
\<close>

record 'f env =
  get_object :: "'f json \<Rightarrow> 'f json \<Rightarrow> exn + string"
  agent :: "string \<Rightarrow> exn + string"
  json_loads :: "string \<Rightarrow> exn + 'f json"
  json_dumps :: "'f json \<Rightarrow> exn + string"
  lax_bool :: "'f json \<Rightarrow> bool option"
  lax_str :: "'f json \<Rightarrow> string option"
  lax_float :: "'f json \<Rightarrow> 'f option"
  pydantic_error :: "string \<Rightarrow> 'f dict \<Rightarrow> exn"
  float_truthy :: "'f \<Rightarrow> bool"
  float_add_int :: "'f \<Rightarrow> int \<Rightarrow> 'f"

subsection \<open>Strings: \<^verbatim>\<open>find\<close>, \<^verbatim>\<open>rfind\<close> and slicing\<close>

text \<open>\<^verbatim>\<open>s.find(c)\<close>: the index of the first occurrence of the character, or -1.\<close>

fun str_find :: "string \<Rightarrow> char \<Rightarrow> int" where
  "str_find [] c = -1"
| "str_find (x # xs) c =
     (if x = c then 0
      else (let r = str_find xs c in if r = -1 then -1 else r + 1))"

text \<open>\<^verbatim>\<open>s.rfind(c)\<close>: the index of the last occurrence of the character, or -1.\<close>

fun str_rfind :: "string \<Rightarrow> char \<Rightarrow> int" where
  "str_rfind [] c = -1"
| "str_rfind (x # xs) c =
     (let r = str_rfind xs c in
      if r \<noteq> -1 then r + 1 else if x = c then 0 else -1)"

text \<open>
  \<^verbatim>\<open>s[i:j]\<close>: a negative bound counts from the end, both bounds are clamped to the string,
  and the slice is empty when the start is not before the stop.
\<close>

definition str_slice :: "string \<Rightarrow> int \<Rightarrow> int \<Rightarrow> string" where
  "str_slice s i j =
     (let n = int (length s);
          a = (if i < 0 then max 0 (i + n) else min i n);
          b = (if j < 0 then max 0 (j + n) else min j n)
      in take (nat (b - a)) (drop (nat a) s))"

subsection \<open>Dictionaries, subscripts, truth values and addition\<close>

definition py_repr :: "string \<Rightarrow> string" where
  \<comment> \<open>\<^verbatim>\<open>repr\<close> of a key without quotes or escapes, as all keys of the handlers are\<close>
  "py_repr k = CHR 0x27 # k @ [CHR 0x27]"

fun type_name :: "'f json \<Rightarrow> string" where
  "type_name JNull = ''NoneType''"
| "type_name (JBool b) = ''bool''"
| "type_name (JInt n) = ''int''"
| "type_name (JFloat f) = ''float''"
| "type_name (JStr s) = ''str''"
| "type_name (JArr xs) = ''list''"
| "type_name (JObj d) = ''dict''"

definition dict_contains :: "'f dict \<Rightarrow> string \<Rightarrow> bool" where
  \<comment> \<open>\<^verbatim>\<open>k in d\<close>\<close>
  "dict_contains d k = (map_of d k \<noteq> None)"

definition dict_getitem :: "'f dict \<Rightarrow> string \<Rightarrow> exn + 'f json" where
  \<comment> \<open>\<^verbatim>\<open>d[k]\<close>\<close>
  "dict_getitem d k =
     (case map_of d k of None \<Rightarrow> Inl (KeyError (py_repr k)) | Some v \<Rightarrow> Inr v)"

definition dict_get :: "'f dict \<Rightarrow> string \<Rightarrow> 'f json" where
  \<comment> \<open>\<^verbatim>\<open>d.get(k)\<close>: \<^verbatim>\<open>None\<close> for a missing key\<close>
  "dict_get d k = (case map_of d k of None \<Rightarrow> JNull | Some v \<Rightarrow> v)"

definition dict_get_default :: "'f dict \<Rightarrow> string \<Rightarrow> 'f json \<Rightarrow> 'f json" where
  \<comment> \<open>\<^verbatim>\<open>d.get(k, default)\<close>\<close>
  "dict_get_default d k dflt = (case map_of d k of None \<Rightarrow> dflt | Some v \<Rightarrow> v)"

text \<open>\<^verbatim>\<open>v[k]\<close> for a string \<open>k\<close>, with the interpreter's messages (CPython 3.11 and later).\<close>

fun getitem :: "'f json \<Rightarrow> string \<Rightarrow> exn + 'f json" where
  "getitem (JObj d) k = dict_getitem d k"
| "getitem (JArr xs) k = Inl (TypeError ''list indices must be integers or slices, not str'')"
| "getitem (JStr s) k =
     Inl (TypeError (''string indices must be integers, not '' @ py_repr ''str''))"
| "getitem v k =
     Inl (TypeError (py_repr (type_name v) @ '' object is not subscriptable''))"

text \<open>\<^verbatim>\<open>v[0]\<close>.\<close>

fun getitem0 :: "'f json \<Rightarrow> exn + 'f json" where
  "getitem0 (JArr []) = Inl (IndexError ''list index out of range'')"
| "getitem0 (JArr (x # xs)) = Inr x"
| "getitem0 (JStr []) = Inl (IndexError ''string index out of range'')"
| "getitem0 (JStr (c # cs)) = Inr (JStr [c])"
| "getitem0 (JObj d) = Inl (KeyError ''0'')"
| "getitem0 v =
     Inl (TypeError (py_repr (type_name v) @ '' object is not subscriptable''))"

text \<open>\<^verbatim>\<open>v[k1][k2]...\<close>, left to right, stopping at the first exception.\<close>

fun getpath :: "'f json \<Rightarrow> string list \<Rightarrow> exn + 'f json" where
  "getpath v [] = Inr v"
| "getpath v (k # ks) =
     (case getitem v k of Inl e \<Rightarrow> Inl e | Inr w \<Rightarrow> getpath w ks)"

text \<open>\<^verbatim>\<open>bool(v)\<close>, the test behind \<^verbatim>\<open>not v\<close>.\<close>

fun truthy :: "'f env \<Rightarrow> 'f json \<Rightarrow> bool" where
  "truthy env JNull = False"
| "truthy env (JBool b) = b"
| "truthy env (JInt n) = (n \<noteq> 0)"
| "truthy env (JFloat f) = float_truthy env f"
| "truthy env (JStr s) = (s \<noteq> [])"
| "truthy env (JArr xs) = (xs \<noteq> [])"
| "truthy env (JObj d) = (d \<noteq> [])"

text \<open>\<^verbatim>\<open>v + n\<close> for an int \<open>n\<close>.\<close>

fun add_int :: "'f env \<Rightarrow> 'f json \<Rightarrow> int \<Rightarrow> exn + 'f json" where
  "add_int env (JInt m) n = Inr (JInt (m + n))"
| "add_int env (JBool b) n = Inr (JInt ((if b then 1 else 0) + n))"
| "add_int env (JFloat f) n = Inr (JFloat (float_add_int env f n))"
| "add_int env (JStr s) n =
     Inl (TypeError ''can only concatenate str (not \"int\") to str'')"
| "add_int env (JArr xs) n =
     Inl (TypeError ''can only concatenate list (not \"int\") to list'')"
| "add_int env v n =
     Inl (TypeError (''unsupported operand type(s) for +: '' @ py_repr (type_name v)
                      @ '' and '' @ py_repr ''int''))"

section \<open>The pydantic models\<close>

text \<open>
  A field accepts a value of its own type as it is; any other value goes through
  pydantic's lax conversion.
\<close>

fun pydantic_bool :: "'f env \<Rightarrow> 'f json \<Rightarrow> bool option" where
  "pydantic_bool env (JBool b) = Some b"
| "pydantic_bool env v = lax_bool env v"

fun pydantic_str :: "'f env \<Rightarrow> 'f json \<Rightarrow> string option" where
  "pydantic_str env (JStr s) = Some s"
| "pydantic_str env v = lax_str env v"

fun pydantic_float :: "'f env \<Rightarrow> 'f json \<Rightarrow> 'f option" where
  "pydantic_float env (JFloat f) = Some f"
| "pydantic_float env v = lax_float env v"

text \<open>A required field: a missing keyword argument is an error, like a rejected value.\<close>

definition field_bool :: "'f env \<Rightarrow> 'f dict \<Rightarrow> string \<Rightarrow> bool option" where
  "field_bool env kwargs name =
     (case map_of kwargs name of None \<Rightarrow> None | Some v \<Rightarrow> pydantic_bool env v)"

definition field_str :: "'f env \<Rightarrow> 'f dict \<Rightarrow> string \<Rightarrow> string option" where
  "field_str env kwargs name =
     (case map_of kwargs name of None \<Rightarrow> None | Some v \<Rightarrow> pydantic_str env v)"

definition field_float :: "'f env \<Rightarrow> 'f dict \<Rightarrow> string \<Rightarrow> 'f option" where
  "field_float env kwargs name =
     (case map_of kwargs name of None \<Rightarrow> None | Some v \<Rightarrow> pydantic_float env v)"

definition not_a_mapping :: "string \<Rightarrow> 'f json \<Rightarrow> exn" where
  \<comment> \<open>\<^verbatim>\<open>Model(**v)\<close> for a \<open>v\<close> that is not a dict (the class is named without its module)\<close>
  "not_a_mapping model v =
     TypeError (model @ ''() argument after ** must be a mapping, not '' @ type_name v)"

record ValidationResult =
  is_bank_statement :: bool

text \<open>
  \<^verbatim>\<open>ValidationResult(**parsed_json)\<close> (\<^verbatim>\<open>input_validator/main.py\<close>, lines 14-19 and 63).
  Keyword arguments that are not fields are ignored.
\<close>

definition new_ValidationResult :: "'f env \<Rightarrow> 'f json \<Rightarrow> exn + ValidationResult" where
  "new_ValidationResult env parsed_json =
     (case parsed_json of
        JObj kwargs \<Rightarrow>
          (case field_bool env kwargs ''is_bank_statement'' of
             None \<Rightarrow> Inl (pydantic_error env ''ValidationResult'' kwargs)
           | Some b \<Rightarrow> Inr \<lparr>is_bank_statement = b\<rparr>)
      | _ \<Rightarrow> Inl (not_a_mapping ''ValidationResult'' parsed_json))"

record 'f BankStatementData =
  BankName :: string
  AccountNumber :: string
  OpeningBalance :: 'f
  ClosingBalance :: 'f
  StartDate :: string
  EndDate :: string

text \<open>
  \<^verbatim>\<open>BankStatementData(**parsed_json)\<close> (\<^verbatim>\<open>extractor/main.py\<close>, lines 14-22 and 66): all six
  fields are required.
\<close>

definition new_BankStatementData :: "'f env \<Rightarrow> 'f json \<Rightarrow> exn + 'f BankStatementData" where
  "new_BankStatementData env parsed_json =
     (case parsed_json of
        JObj kwargs \<Rightarrow>
          (case do {
                  bn \<leftarrow> field_str env kwargs ''BankName'';
                  an \<leftarrow> field_str env kwargs ''AccountNumber'';
                  ob \<leftarrow> field_float env kwargs ''OpeningBalance'';
                  cb \<leftarrow> field_float env kwargs ''ClosingBalance'';
                  sd \<leftarrow> field_str env kwargs ''StartDate'';
                  ed \<leftarrow> field_str env kwargs ''EndDate'';
                  Some \<lparr>BankName = bn, AccountNumber = an, OpeningBalance = ob,
                        ClosingBalance = cb, StartDate = sd, EndDate = ed\<rparr>
                } of
             None \<Rightarrow> Inl (pydantic_error env ''BankStatementData'' kwargs)
           | Some m \<Rightarrow> Inr m)
      | _ \<Rightarrow> Inl (not_a_mapping ''BankStatementData'' parsed_json))"

text \<open>\<^verbatim>\<open>model_dump()\<close>: the six fields in declaration order.\<close>

definition model_dump :: "'f BankStatementData \<Rightarrow> 'f dict" where
  "model_dump m =
     [(''BankName'', JStr (BankName m)),
      (''AccountNumber'', JStr (AccountNumber m)),
      (''OpeningBalance'', JFloat (OpeningBalance m)),
      (''ClosingBalance'', JFloat (ClosingBalance m)),
      (''StartDate'', JStr (StartDate m)),
      (''EndDate'', JStr (EndDate m))]"

section \<open>The Validator stage (\<^verbatim>\<open>input_validator/main.py\<close>)\<close>

definition no_json_found :: exn where
  "no_json_found = ValueError ''No JSON object found in the response.''"

text \<open>
  The \<^verbatim>\<open>try\<close> block of \<^verbatim>\<open>validate_bank_statement\<close> (lines 33-66): \<open>Inl\<close> is the exception
  that leaves it. The \<^verbatim>\<open>print\<close> calls are left out.
\<close>

definition validate_try :: "'f env \<Rightarrow> string \<Rightarrow> exn + bool" where
  "validate_try env document =
     (case agent env document of
        Inl e \<Rightarrow> Inl e
      | Inr raw_response_text \<Rightarrow>
          (let json_start = str_find raw_response_text (CHR ''{'');
               json_end = str_rfind raw_response_text (CHR ''}'') + 1
           in if json_start = -1 \<or> json_end = 0 then Inl no_json_found
              else (let cleaned_json_str = str_slice raw_response_text json_start json_end
                    in case json_loads env cleaned_json_str of
                         Inl e \<Rightarrow> Inl e
                       | Inr parsed_json \<Rightarrow>
                           (case new_ValidationResult env parsed_json of
                              Inl e \<Rightarrow> Inl e
                            | Inr validation_result \<Rightarrow>
                                Inr (is_bank_statement validation_result)))))"

text \<open>
  \<^verbatim>\<open>validate_bank_statement\<close>: \<^verbatim>\<open>except Exception\<close> (lines 68-70) turns every exception into
  \<^verbatim>\<open>False\<close>.
\<close>

definition validate_bank_statement :: "'f env \<Rightarrow> string \<Rightarrow> bool" where
  "validate_bank_statement env document =
     (case validate_try env document of Inl e \<Rightarrow> False | Inr b \<Rightarrow> b)"

text \<open>
  The bucket and key the event names (lines 87-95 of the handler): the first record of a
  direct S3 event when the event has \<^verbatim>\<open>"Records"\<close>, else the top-level \<^verbatim>\<open>bucket\<close> and \<^verbatim>\<open>key\<close>
  (\<^verbatim>\<open>None\<close> when missing).
\<close>

definition event_document :: "'f dict \<Rightarrow> exn + ('f json \<times> 'f json)" where
  "event_document event =
     (if dict_contains event ''Records'' then
        (case dict_getitem event ''Records'' of
           Inl e \<Rightarrow> Inl e
         | Inr records \<Rightarrow>
             (case getitem0 records of
                Inl e \<Rightarrow> Inl e
              | Inr s3_event \<Rightarrow>
                  (case getpath s3_event [''s3'', ''bucket'', ''name''] of
                     Inl e \<Rightarrow> Inl e
                   | Inr bucket \<Rightarrow>
                       (case getpath s3_event [''s3'', ''object'', ''key''] of
                          Inl e \<Rightarrow> Inl e
                        | Inr key \<Rightarrow> Inr (bucket, key)))))
      else Inr (dict_get event ''bucket'', dict_get event ''key''))"

text \<open>The \<^verbatim>\<open>try\<close> block of the Validator's \<^verbatim>\<open>handler\<close> (lines 84-108).\<close>

definition validator_try :: "'f env \<Rightarrow> 'f dict \<Rightarrow> exn + 'f dict" where
  "validator_try env event =
     (case event_document event of
        Inl e \<Rightarrow> Inl e
      | Inr (bucket, key) \<Rightarrow>
          if \<not> truthy env bucket \<or> \<not> truthy env key
          then Inl (ValueError ''Missing bucket or key in event'')
          else (case get_object env bucket key of
                  Inl e \<Rightarrow> Inl e
                | Inr file_content \<Rightarrow>
                    (let validation_result = validate_bank_statement env file_content
                     in Inr [(''bucket'', bucket), (''key'', key),
                             (''valid'', JBool validation_result)])))"

text \<open>
  The dictionary the Validator's \<^verbatim>\<open>except\<close> block returns for the exception \<open>e\<close>
  (lines 115-118).
\<close>

definition error_response :: "exn \<Rightarrow> 'f dict" where
  "error_response e =
     [(''statusCode'', JInt 500),
      (''error'', JStr (''An exception occurred in the input_validator Lambda: '' @ str_exn e))]"

text \<open>
  The Validator's \<^verbatim>\<open>handler\<close>: \<open>Inr\<close> is the returned dictionary, \<open>Inl\<close> an exception that
  leaves the handler.
\<close>

definition validator_handler :: "'f env \<Rightarrow> 'f dict \<Rightarrow> exn + 'f dict" where
  "validator_handler env event =
     (case validator_try env event of
        Inr result \<Rightarrow> Inr result
      | Inl e \<Rightarrow> Inr (error_response e))"

section \<open>The Extractor stage (\<^verbatim>\<open>extractor/main.py\<close>)\<close>

text \<open>
  The \<^verbatim>\<open>try\<close> block of \<^verbatim>\<open>extract_bank_statement_data\<close> (lines 35-66), up to the validated
  model.
\<close>

definition extract_try :: "'f env \<Rightarrow> string \<Rightarrow> exn + 'f BankStatementData" where
  "extract_try env document =
     (case agent env document of
        Inl e \<Rightarrow> Inl e
      | Inr raw_response_text \<Rightarrow>
          (let json_start = str_find raw_response_text (CHR ''{'');
               json_end = str_rfind raw_response_text (CHR ''}'') + 1
           in if json_start = -1 \<or> json_end = 0 then Inl no_json_found
              else (let cleaned_json_str = str_slice raw_response_text json_start json_end
                    in case json_loads env cleaned_json_str of
                         Inl e \<Rightarrow> Inl e
                       | Inr parsed_json \<Rightarrow> new_BankStatementData env parsed_json)))"

text \<open>
  \<^verbatim>\<open>extract_bank_statement_data\<close>: the dump of the model (line 69), or the empty dictionary
  after any exception (lines 71-73).
\<close>

definition extract_bank_statement_data :: "'f env \<Rightarrow> string \<Rightarrow> 'f dict" where
  "extract_bank_statement_data env document =
     (case extract_try env document of
        Inl e \<Rightarrow> []
      | Inr bank_statement_data \<Rightarrow> model_dump bank_statement_data)"

definition next_retry_count :: "'f env \<Rightarrow> 'f dict \<Rightarrow> exn + 'f json" where
  \<comment> \<open>\<^verbatim>\<open>event.get("retry_count", 0) + 1\<close>\<close>
  "next_retry_count env event = add_int env (dict_get_default event ''retry_count'' (JInt 0)) 1"

text \<open>
  The \<^verbatim>\<open>try\<close> block of the Extractor's \<^verbatim>\<open>handler\<close> (lines 80-103). It starts by printing
  \<^verbatim>\<open>json.dumps(event)\<close> (line 82): the text is only printed, but an exception of the
  serialiser leaves the block before the event is read.
\<close>

definition extractor_try :: "'f env \<Rightarrow> 'f dict \<Rightarrow> exn + 'f dict" where
  "extractor_try env event =
     (case json_dumps env (JObj event) of
        Inl e \<Rightarrow> Inl e
      | Inr event_text \<Rightarrow>
          (case dict_getitem event ''bucket'' of
             Inl e \<Rightarrow> Inl e
           | Inr bucket \<Rightarrow>
               (case dict_getitem event ''key'' of
                  Inl e \<Rightarrow> Inl e
                | Inr key \<Rightarrow>
                    (case get_object env bucket key of
                       Inl e \<Rightarrow> Inl e
                     | Inr file_content \<Rightarrow>
                         (let extracted_data = extract_bank_statement_data env file_content;
                              is_valid = (extracted_data \<noteq> [])
                          in case next_retry_count env event of
                               Inl e \<Rightarrow> Inl e
                             | Inr retry_count \<Rightarrow>
                                 Inr [(''bucket'', bucket), (''key'', key),
                                      (''valid'', JBool is_valid),
                                      (''extracted_data'', JObj extracted_data),
                                      (''retry_count'', retry_count)])))))"

text \<open>
  The dictionary the Extractor's \<^verbatim>\<open>except\<close> block returns for the exception \<open>e\<close>
  (lines 110-117), once its \<^verbatim>\<open>retry_count\<close> entry is computed.
\<close>

definition failure_response :: "'f dict \<Rightarrow> 'f json \<Rightarrow> exn \<Rightarrow> 'f dict" where
  "failure_response event retry_count e =
     [(''bucket'', dict_get event ''bucket''),
      (''key'', dict_get event ''key''),
      (''valid'', JBool False),
      (''extracted_data'', JObj []),
      (''retry_count'', retry_count),
      (''error'', JStr (str_exn e))]"

text \<open>
  The Extractor's \<^verbatim>\<open>handler\<close>. The addition in the \<^verbatim>\<open>except\<close> block is outside any
  \<^verbatim>\<open>try\<close>, so its exception leaves the handler.
\<close>

definition extractor_handler :: "'f env \<Rightarrow> 'f dict \<Rightarrow> exn + 'f dict" where
  "extractor_handler env event =
     (case extractor_try env event of
        Inr result \<Rightarrow> Inr result
      | Inl e \<Rightarrow>
          (case next_retry_count env event of
             Inl e' \<Rightarrow> Inl e'
           | Inr retry_count \<Rightarrow> Inr (failure_response event retry_count e)))"

section \<open>A stub environment\<close>

text \<open>
  A deterministic stand-in for the outside world, for running the handlers on concrete
  events: floats are rationals, the object store holds one document under
  \<^verbatim>\<open>docs/statement.pdf\<close>, the agent gives a fixed reply or raises a fixed exception,
  \<open>stub_loads\<close> knows the JSON texts below,
  the serialiser refuses an event that has an entry named \<^verbatim>\<open>huge\<close> (standing for a value it
  cannot write), and pydantic converts nothing.
\<close>

definition statement_fields :: string where
  "statement_fields =
     ''\"BankName\": \"Acme Bank\", \"AccountNumber\": \"12345\", \"OpeningBalance\": 100.5, ''
     @ ''\"ClosingBalance\": 250.75, \"StartDate\": \"2024-01-01\", \"EndDate\": \"2024-01-31\"''"

definition statement_text :: string where
  "statement_text = CHR ''{'' # statement_fields @ [CHR ''}'']"

definition statement_object :: "rat dict" where
  "statement_object =
     [(''BankName'', JStr ''Acme Bank''), (''AccountNumber'', JStr ''12345''),
      (''OpeningBalance'', JFloat 100.5), (''ClosingBalance'', JFloat 250.75),
      (''StartDate'', JStr ''2024-01-01''), (''EndDate'', JStr ''2024-01-31'')]"

definition incomplete_fields :: string where
  "incomplete_fields =
     ''\"BankName\": \"Acme Bank\", \"AccountNumber\": \"12345\", \"OpeningBalance\": 100.5, ''
     @ ''\"StartDate\": \"2024-01-01\", \"EndDate\": \"2024-01-31\"''"

definition incomplete_text :: string where
  "incomplete_text = CHR ''{'' # incomplete_fields @ [CHR ''}'']"

definition incomplete_object :: "rat dict" where
  "incomplete_object =
     [(''BankName'', JStr ''Acme Bank''), (''AccountNumber'', JStr ''12345''),
      (''OpeningBalance'', JFloat 100.5),
      (''StartDate'', JStr ''2024-01-01''), (''EndDate'', JStr ''2024-01-31'')]"

definition json_decode_error :: exn where
  "json_decode_error =
     LibraryError ''JSONDecodeError'' ''Expecting property name enclosed in double quotes''"

definition stub_loads :: "string \<Rightarrow> exn + rat json" where
  "stub_loads s =
     (if s = ''{\"is_bank_statement\": true}'' then Inr (JObj [(''is_bank_statement'', JBool True)])
      else if s = ''{\"is_bank_statement\": false}'' then Inr (JObj [(''is_bank_statement'', JBool False)])
      else if s = ''{\"is_bank_statement\": null}'' then Inr (JObj [(''is_bank_statement'', JNull)])
      else if s = statement_text then Inr (JObj statement_object)
      else if s = incomplete_text then Inr (JObj incomplete_object)
      else Inl json_decode_error)"

definition digit_limit_error :: exn where
  "digit_limit_error =
     ValueError ''Exceeds the limit (4300 digits) for integer string conversion''"

definition stub_dumps :: "rat json \<Rightarrow> exn + string" where
  "stub_dumps v =
     (case v of
        JObj d \<Rightarrow> if map_of d ''huge'' = None then Inr ''{...}'' else Inl digit_limit_error
      | _ \<Rightarrow> Inr ''...'')"

definition throttled :: exn where
  "throttled = LibraryError ''ThrottlingException'' ''Too many requests''"

definition no_such_key :: exn where
  "no_such_key = LibraryError ''NoSuchKey'' ''The specified key does not exist.''"

definition stub_env :: "string \<Rightarrow> exn + string \<Rightarrow> rat env" where
  "stub_env stored reply =
     \<lparr>get_object = (\<lambda>bucket key.
        if bucket = JStr ''docs'' \<and> key = JStr ''statement.pdf'' then Inr stored
        else Inl no_such_key),
      agent = (\<lambda>document. reply),
      json_loads = stub_loads,
      json_dumps = stub_dumps,
      lax_bool = (\<lambda>v. None),
      lax_str = (\<lambda>v. None),
      lax_float = (\<lambda>v. None),
      pydantic_error = (\<lambda>model kwargs. LibraryError ''ValidationError'' model),
      float_truthy = (\<lambda>f. f \<noteq> 0),
      float_add_int = (\<lambda>f n. f + of_int n)\<rparr>"

text \<open>
  Events: the Step Functions envelope for the stored document, the same with a retry
  count, two for a key and a bucket the store does not hold, one the stub serialiser
  refuses, and a direct S3 event whose first record
  names the stored document while its top level names another.
\<close>

definition step_event :: "rat dict" where
  "step_event = [(''bucket'', JStr ''docs''), (''key'', JStr ''statement.pdf'')]"

definition retry_event :: "rat dict" where
  "retry_event =
     [(''bucket'', JStr ''docs''), (''key'', JStr ''statement.pdf''), (''retry_count'', JInt 2)]"

definition lost_event :: "rat dict" where
  "lost_event = [(''bucket'', JStr ''docs''), (''key'', JStr ''lost.pdf'')]"

definition archive_event :: "rat dict" where
  "archive_event = [(''bucket'', JStr ''archive''), (''key'', JStr ''statement.pdf'')]"

definition huge_event :: "rat dict" where
  "huge_event =
     [(''bucket'', JStr ''docs''), (''key'', JStr ''statement.pdf''), (''huge'', JNull)]"

definition s3_record :: "rat json" where
  "s3_record =
     JObj [(''s3'', JObj [(''bucket'', JObj [(''name'', JStr ''docs'')]),
                          (''object'', JObj [(''key'', JStr ''statement.pdf'')])])]"

definition records_event :: "rat dict" where
  "records_event =
     [(''Records'', JArr [s3_record]), (''bucket'', JStr ''other''), (''key'', JStr ''other.pdf'')]"

section \<open>Properties of the string operations and of the handlers\<close>

lemma str_find_ge: "-1 \<le> str_find s c"
  by (induction s) (auto simp: Let_def)

lemma str_find_absent: "str_find s c = -1 \<longleftrightarrow> c \<notin> set s"
proof (induction s)
  case Nil
  show ?case by simp
next
  case (Cons x xs)
  have "-1 \<le> str_find xs c" by (rule str_find_ge)
  with Cons show ?case by (auto simp: Let_def)
qed

lemma str_find_nonneg: "c \<in> set s \<Longrightarrow> 0 \<le> str_find s c"
  by (induction s) (auto simp: Let_def)

lemma str_rfind_ge: "-1 \<le> str_rfind s c"
  by (induction s) (auto simp: Let_def)

lemma str_rfind_absent: "str_rfind s c = -1 \<longleftrightarrow> c \<notin> set s"
proof (induction s)
  case Nil
  show ?case by simp
next
  case (Cons x xs)
  have "-1 \<le> str_rfind xs c" by (rule str_rfind_ge)
  with Cons show ?case by (auto simp: Let_def)
qed

lemma str_find_first: "c \<notin> set pre \<Longrightarrow> str_find (pre @ c # rest) c = int (length pre)"
  by (induction pre) (auto simp: Let_def)

lemma str_rfind_last: "c \<notin> set post \<Longrightarrow> str_rfind (xs @ c # post) c = int (length xs)"
  apply (induction xs) apply (auto simp: Let_def str_rfind_absent)
  done

lemma slice_between:
  "c1 \<notin> set pre \<Longrightarrow> c2 \<notin> set post \<Longrightarrow>
   str_slice (pre @ c1 # mid @ c2 # post) (str_find (pre @ c1 # mid @ c2 # post) c1)
     (str_rfind (pre @ c1 # mid @ c2 # post) c2 + 1) = c1 # mid @ [c2]"
proof -
  assume a: "c1 \<notin> set pre" and b: "c2 \<notin> set post"
  have f: "str_find (pre @ c1 # mid @ c2 # post) c1 = int (length pre)"
    using a by (rule str_find_first)
  have "str_rfind ((pre @ c1 # mid) @ c2 # post) c2 = int (length (pre @ c1 # mid))"
    using b by (rule str_rfind_last)
  then have r: "str_rfind (pre @ c1 # mid @ c2 # post) c2 = int (length pre + 1 + length mid)"
    by simp
  have n: "nat (2 + int (length mid)) = Suc (Suc (length mid))" by simp
  show ?thesis unfolding f r by (simp add: str_slice_def n)
qed

lemma no_delimiter_iff:
  "(str_find t c1 = -1 \<or> str_rfind t c2 + 1 = 0) \<longleftrightarrow> (c1 \<notin> set t \<or> c2 \<notin> set t)"
proof -
  have "str_rfind t c2 + 1 = 0 \<longleftrightarrow> str_rfind t c2 = -1" by arith
  then show ?thesis by (simp add: str_find_absent str_rfind_absent)
qed

lemma validate_try_no_json:
  "agent env document = Inr t \<Longrightarrow> CHR ''{'' \<notin> set t \<or> CHR ''}'' \<notin> set t \<Longrightarrow>
   validate_try env document = Inl no_json_found"
  by (simp add: validate_try_def Let_def no_delimiter_iff)

lemma extract_try_no_json:
  "agent env document = Inr t \<Longrightarrow> CHR ''{'' \<notin> set t \<or> CHR ''}'' \<notin> set t \<Longrightarrow>
   extract_try env document = Inl no_json_found"
  by (simp add: extract_try_def Let_def no_delimiter_iff)

lemma validate_try_json:
  "agent env document = Inr t \<Longrightarrow> CHR ''{'' \<in> set t \<Longrightarrow> CHR ''}'' \<in> set t \<Longrightarrow>
   validate_try env document =
     (case json_loads env (str_slice t (str_find t (CHR ''{'')) (str_rfind t (CHR ''}'') + 1)) of
        Inl e \<Rightarrow> Inl e
      | Inr parsed_json \<Rightarrow>
          (case new_ValidationResult env parsed_json of
             Inl e \<Rightarrow> Inl e
           | Inr validation_result \<Rightarrow> Inr (is_bank_statement validation_result)))"
  by (simp add: validate_try_def Let_def no_delimiter_iff)

lemma extract_try_json:
  "agent env document = Inr t \<Longrightarrow> CHR ''{'' \<in> set t \<Longrightarrow> CHR ''}'' \<in> set t \<Longrightarrow>
   extract_try env document =
     (case json_loads env (str_slice t (str_find t (CHR ''{'')) (str_rfind t (CHR ''}'') + 1)) of
        Inl e \<Rightarrow> Inl e
      | Inr parsed_json \<Rightarrow> new_BankStatementData env parsed_json)"
  by (simp add: extract_try_def Let_def no_delimiter_iff)

lemma validator_handler_returns: "\<exists>r. validator_handler env event = Inr r"
  by (simp add: validator_handler_def split: sum.split)


lemma validator_handler_store_fault:
  "event_document event = Inr (bucket, key) \<Longrightarrow> truthy env bucket \<Longrightarrow> truthy env key \<Longrightarrow>
   get_object env bucket key = Inl e \<Longrightarrow>
   validator_handler env event = Inr (error_response e)"
  by (simp add: validator_handler_def validator_try_def)

lemma validator_handler_fetched:
  "event_document event = Inr (bucket, key) \<Longrightarrow> truthy env bucket \<Longrightarrow> truthy env key \<Longrightarrow>
   get_object env bucket key = Inr file_content \<Longrightarrow>
   validator_handler env event =
     Inr [(''bucket'', bucket), (''key'', key),
          (''valid'', JBool (validate_bank_statement env file_content))]"
  by (simp add: validator_handler_def validator_try_def)

lemma validator_try_result:
  "validator_try env event = Inr r \<Longrightarrow>
   \<exists>bucket key file_content.
     event_document event = Inr (bucket, key) \<and> truthy env bucket \<and> truthy env key \<and>
     get_object env bucket key = Inr file_content \<and>
     r = [(''bucket'', bucket), (''key'', key),
          (''valid'', JBool (validate_bank_statement env file_content))]"
  by (auto simp: validator_try_def split: sum.splits if_splits)

lemma next_retry_count_missing:
  "map_of event ''retry_count'' = None \<Longrightarrow> next_retry_count env event = Inr (JInt 1)"
  by (simp add: next_retry_count_def dict_get_default_def)

lemma next_retry_count_int:
  "map_of event ''retry_count'' = Some (JInt n) \<Longrightarrow>
   next_retry_count env event = Inr (JInt (n + 1))"
  by (simp add: next_retry_count_def dict_get_default_def)

lemma extractor_try_result:
  "extractor_try env event = Inr r \<Longrightarrow>
   \<exists>bucket key file_content retry_count.
     map_of event ''bucket'' = Some bucket \<and> map_of event ''key'' = Some key \<and>
     get_object env bucket key = Inr file_content \<and>
     next_retry_count env event = Inr retry_count \<and>
     r = [(''bucket'', bucket), (''key'', key),
          (''valid'', JBool (extract_bank_statement_data env file_content \<noteq> [])),
          (''extracted_data'', JObj (extract_bank_statement_data env file_content)),
          (''retry_count'', retry_count)]"
  by (auto simp: extractor_try_def dict_getitem_def Let_def split: sum.splits option.splits)

lemma extractor_try_dump_fault:
  "json_dumps env (JObj event) = Inl e \<Longrightarrow> extractor_try env event = Inl e"
  by (simp add: extractor_try_def)

lemma extractor_try_fetched:
  "json_dumps env (JObj event) = Inr event_text \<Longrightarrow>
   map_of event ''bucket'' = Some bucket \<Longrightarrow> map_of event ''key'' = Some key \<Longrightarrow>
   get_object env bucket key = Inr file_content \<Longrightarrow>
   next_retry_count env event = Inr retry_count \<Longrightarrow>
   extractor_try env event =
     Inr [(''bucket'', bucket), (''key'', key),
          (''valid'', JBool (extract_bank_statement_data env file_content \<noteq> [])),
          (''extracted_data'', JObj (extract_bank_statement_data env file_content)),
          (''retry_count'', retry_count)]"
  by (simp add: extractor_try_def dict_getitem_def Let_def)

lemma extractor_try_no_bucket:
  "json_dumps env (JObj event) = Inr event_text \<Longrightarrow> map_of event ''bucket'' = None \<Longrightarrow>
   extractor_try env event = Inl (KeyError (py_repr ''bucket''))"
  by (simp add: extractor_try_def dict_getitem_def)

lemma extractor_try_no_key:
  "json_dumps env (JObj event) = Inr event_text \<Longrightarrow>
   map_of event ''bucket'' = Some bucket \<Longrightarrow> map_of event ''key'' = None \<Longrightarrow>
   extractor_try env event = Inl (KeyError (py_repr ''key''))"
  by (simp add: extractor_try_def dict_getitem_def)

lemma extractor_try_store_fault:
  "json_dumps env (JObj event) = Inr event_text \<Longrightarrow>
   map_of event ''bucket'' = Some bucket \<Longrightarrow> map_of event ''key'' = Some key \<Longrightarrow>
   get_object env bucket key = Inl e \<Longrightarrow> extractor_try env event = Inl e"
  by (simp add: extractor_try_def dict_getitem_def)

lemma extractor_handler_returns:
  "next_retry_count env event = Inr retry_count \<Longrightarrow>
   \<exists>r. extractor_handler env event = Inr r \<and> map_of r ''retry_count'' = Some retry_count"
proof (cases "extractor_try env event")
  case (Inl e)
  assume "next_retry_count env event = Inr retry_count"
  with Inl show ?thesis by (simp add: extractor_handler_def failure_response_def)
next
  case (Inr r)
  assume rc: "next_retry_count env event = Inr retry_count"
  from extractor_try_result [OF Inr] rc Inr show ?thesis
    by (auto simp: extractor_handler_def)
qed

lemma model_dump_nonempty: "model_dump m \<noteq> []"
  by (simp add: model_dump_def)

lemma slice_reversed:
  assumes "c1 \<in> set s" and "str_rfind s c2 < str_find s c1"
  shows "str_slice s (str_find s c1) (str_rfind s c2 + 1) = []"
proof -
  have a: "0 \<le> str_find s c1" using assms(1) by (rule str_find_nonneg)
  have b: "0 \<le> str_rfind s c2 + 1" using str_rfind_ge [of s c2] by simp
  from assms(2) have "min (str_rfind s c2 + 1) (int (length s)) \<le> min (str_find s c1) (int (length s))"
    by simp
  with a b show ?thesis by (simp add: str_slice_def)
qed

lemma event_document_top_level:
  "map_of event ''Records'' = None \<Longrightarrow>
   event_document event = Inr (dict_get event ''bucket'', dict_get event ''key'')"
  by (simp add: event_document_def dict_contains_def)

lemma event_document_record:
  "map_of event ''Records'' = Some (JArr (s3_event # rest)) \<Longrightarrow>
   getpath s3_event [''s3'', ''bucket'', ''name''] = Inr bucket \<Longrightarrow>
   getpath s3_event [''s3'', ''object'', ''key''] = Inr key \<Longrightarrow>
   event_document event = Inr (bucket, key)"
  by (simp add: event_document_def dict_contains_def dict_getitem_def)

lemma validate_try_embedded:
  assumes "agent env document = Inr (pre @ CHR ''{'' # mid @ CHR ''}'' # post)"
    and "CHR ''{'' \<notin> set pre" and "CHR ''}'' \<notin> set post"
  shows "validate_try env document =
     (case json_loads env (CHR ''{'' # mid @ [CHR ''}'']) of
        Inl e \<Rightarrow> Inl e
      | Inr parsed_json \<Rightarrow>
          (case new_ValidationResult env parsed_json of
             Inl e \<Rightarrow> Inl e
           | Inr validation_result \<Rightarrow> Inr (is_bank_statement validation_result)))"
proof -
  let ?t = "pre @ CHR ''{'' # mid @ CHR ''}'' # post"
  have "CHR ''{'' \<in> set ?t" and "CHR ''}'' \<in> set ?t" by simp_all
  from validate_try_json [OF assms(1) this] slice_between [OF assms(2,3)]
  show ?thesis by simp
qed

lemma extract_try_embedded:
  assumes "agent env document = Inr (pre @ CHR ''{'' # mid @ CHR ''}'' # post)"
    and "CHR ''{'' \<notin> set pre" and "CHR ''}'' \<notin> set post"
  shows "extract_try env document =
     (case json_loads env (CHR ''{'' # mid @ [CHR ''}'']) of
        Inl e \<Rightarrow> Inl e
      | Inr parsed_json \<Rightarrow> new_BankStatementData env parsed_json)"
proof -
  let ?t = "pre @ CHR ''{'' # mid @ CHR ''}'' # post"
  have "CHR ''{'' \<in> set ?t" and "CHR ''}'' \<in> set ?t" by simp_all
  from extract_try_json [OF assms(1) this] slice_between [OF assms(2,3)]
  show ?thesis by simp
qed


lemma new_BankStatementData_rejects:
  "field_str env obj ''BankName'' = None \<or> field_str env obj ''AccountNumber'' = None \<or>
   field_float env obj ''OpeningBalance'' = None \<or> field_float env obj ''ClosingBalance'' = None \<or>
   field_str env obj ''StartDate'' = None \<or> field_str env obj ''EndDate'' = None \<Longrightarrow>
   new_BankStatementData env (JObj obj) = Inl (pydantic_error env ''BankStatementData'' obj)"
  by (auto simp: new_BankStatementData_def split: Option.bind_splits option.splits)

lemma field_str_None:
  "field_str env obj name = None \<longleftrightarrow>
     map_of obj name = None \<or> (\<exists>v. map_of obj name = Some v \<and> pydantic_str env v = None)"
  by (auto simp: field_str_def split: option.splits)

lemma field_float_None:
  "field_float env obj name = None \<longleftrightarrow>
     map_of obj name = None \<or> (\<exists>v. map_of obj name = Some v \<and> pydantic_float env v = None)"
  by (auto simp: field_float_def split: option.splits)

lemma field_bool_None:
  "field_bool env obj name = None \<longleftrightarrow>
     map_of obj name = None \<or> (\<exists>v. map_of obj name = Some v \<and> pydantic_bool env v = None)"
  by (auto simp: field_bool_def split: option.splits)

lemma extract_all_or_nothing:
  "extract_bank_statement_data env document = [] \<or>
   map fst (extract_bank_statement_data env document) =
     [''BankName'', ''AccountNumber'', ''OpeningBalance'', ''ClosingBalance'',
      ''StartDate'', ''EndDate'']"
  by (simp add: extract_bank_statement_data_def model_dump_def split: sum.split)

lemma validate_bank_statement_fault:
  "validate_try env document = Inl e \<or> validate_try env document = Inr False \<Longrightarrow>
   validate_bank_statement env document = False"
  by (auto simp: validate_bank_statement_def)

lemma extractor_handler_store_fault:
  "json_dumps env (JObj event) = Inr event_text \<Longrightarrow>
   map_of event ''bucket'' = Some bucket \<Longrightarrow> map_of event ''key'' = Some key \<Longrightarrow>
   get_object env bucket key = Inl e \<Longrightarrow> next_retry_count env event = Inr retry_count \<Longrightarrow>
   extractor_handler env event =
     Inr [(''bucket'', bucket), (''key'', key), (''valid'', JBool False),
          (''extracted_data'', JObj []), (''retry_count'', retry_count),
          (''error'', JStr (str_exn e))]"
  by (simp add: extractor_handler_def extractor_try_store_fault failure_response_def dict_get_def)

lemma extractor_handler_extraction_fault:
  "json_dumps env (JObj event) = Inr event_text \<Longrightarrow>
   map_of event ''bucket'' = Some bucket \<Longrightarrow> map_of event ''key'' = Some key \<Longrightarrow>
   get_object env bucket key = Inr file_content \<Longrightarrow> extract_try env file_content = Inl e \<Longrightarrow>
   next_retry_count env event = Inr retry_count \<Longrightarrow>
   extractor_handler env event =
     Inr [(''bucket'', bucket), (''key'', key), (''valid'', JBool False),
          (''extracted_data'', JObj []), (''retry_count'', retry_count)]"
  by (simp add: extractor_handler_def extractor_try_fetched extract_bank_statement_data_def)

lemma next_retry_count_typed:
  "(map_of event ''retry_count'' = None \<and> n = 0) \<or> map_of event ''retry_count'' = Some (JInt n) \<Longrightarrow>
   next_retry_count env event = Inr (JInt (n + 1))"
  by (auto simp: next_retry_count_missing next_retry_count_int)

lemma stub_event_document:
  "event_document step_event = Inr (JStr ''docs'', JStr ''statement.pdf'')"
  "event_document archive_event = Inr (JStr ''archive'', JStr ''statement.pdf'')"
  by (simp_all add: event_document_def dict_contains_def dict_get_def step_event_def
      archive_event_def)

lemma stub_get_object:
  "get_object (stub_env stored reply) (JStr ''docs'') (JStr ''statement.pdf'') = Inr stored"
  "get_object (stub_env stored reply) (JStr ''docs'') (JStr ''lost.pdf'') = Inl no_such_key"
  "get_object (stub_env stored reply) (JStr ''archive'') (JStr ''statement.pdf'') = Inl no_such_key"
  by (simp_all add: stub_env_def)

lemma stub_json_dumps:
  "map_of event ''huge'' = None \<Longrightarrow> json_dumps (stub_env stored reply) (JObj event) = Inr ''{...}''"
  "json_dumps (stub_env stored reply) (JObj huge_event) = Inl digit_limit_error"
  by (simp_all add: stub_env_def stub_dumps_def huge_event_def)

lemma stub_incomplete_fault:
  "extract_try (stub_env stored (Inr incomplete_text)) document
     = Inl (LibraryError ''ValidationError'' ''BankStatementData'')"
proof -
  let ?x = "stub_env stored (Inr incomplete_text)"
  have a: "agent ?x document = Inr ([] @ CHR ''{'' # incomplete_fields @ CHR ''}'' # [])"
    by (simp add: stub_env_def incomplete_text_def)
  have l: "json_loads ?x (CHR ''{'' # incomplete_fields @ [CHR ''}'']) = Inr (JObj incomplete_object)"
    by (simp add: stub_env_def stub_loads_def incomplete_text_def statement_text_def
        incomplete_fields_def statement_fields_def)
  have "field_float ?x incomplete_object ''ClosingBalance'' = None"
    by (simp add: field_float_def incomplete_object_def)
  then have n: "new_BankStatementData ?x (JObj incomplete_object)
      = Inl (pydantic_error ?x ''BankStatementData'' incomplete_object)"
    by (simp add: new_BankStatementData_rejects)
  have p: "pydantic_error ?x ''BankStatementData'' incomplete_object
      = LibraryError ''ValidationError'' ''BankStatementData''"
    by (simp add: stub_env_def)
  show ?thesis using extract_try_embedded [OF a] l n p by simp
qed

lemma stub_true_reply:
  "validate_try (stub_env stored (Inr ''{\"is_bank_statement\": true}'')) document = Inr True"
proof -
  let ?v = "stub_env stored (Inr ''{\"is_bank_statement\": true}'')"
  have a: "agent ?v document = Inr ([] @ CHR ''{'' # ''\"is_bank_statement\": true'' @ CHR ''}'' # [])"
    by (simp add: stub_env_def)
  have l: "json_loads ?v (CHR ''{'' # ''\"is_bank_statement\": true'' @ [CHR ''}''])
      = Inr (JObj [(''is_bank_statement'', JBool True)])"
    by (simp add: stub_env_def stub_loads_def)
  have n: "new_ValidationResult ?v (JObj [(''is_bank_statement'', JBool True)])
      = Inr \<lparr>is_bank_statement = True\<rparr>"
    by (simp add: new_ValidationResult_def field_bool_def)
  show ?thesis using validate_try_embedded [OF a] l n by simp
qed

lemma validate_try_agent_fault:
  "agent env document = Inl e \<Longrightarrow> validate_try env document = Inl e"
  by (simp add: validate_try_def)

lemma extract_try_agent_fault:
  "agent env document = Inl e \<Longrightarrow> extract_try env document = Inl e"
  by (simp add: extract_try_def)

lemma rejected_field_fails:
  assumes "(name \<in> {''BankName'', ''AccountNumber'', ''StartDate'', ''EndDate''} \<and>
            (map_of obj name = None \<or>
             (\<exists>v. map_of obj name = Some v \<and> pydantic_str env v = None))) \<or>
           (name \<in> {''OpeningBalance'', ''ClosingBalance''} \<and>
            (map_of obj name = None \<or>
             (\<exists>v. map_of obj name = Some v \<and> pydantic_float env v = None)))"
  shows "new_BankStatementData env (JObj obj) = Inl (pydantic_error env ''BankStatementData'' obj)"
proof -
  from assms have "(name \<in> {''BankName'', ''AccountNumber'', ''StartDate'', ''EndDate''} \<and>
                 field_str env obj name = None) \<or>
               (name \<in> {''OpeningBalance'', ''ClosingBalance''} \<and> field_float env obj name = None)"
    by (simp add: field_str_None field_float_None)
  then have "field_str env obj ''BankName'' = None \<or> field_str env obj ''AccountNumber'' = None \<or>
       field_float env obj ''OpeningBalance'' = None \<or> field_float env obj ''ClosingBalance'' = None \<or>
       field_str env obj ''StartDate'' = None \<or> field_str env obj ''EndDate'' = None"
    by (elim disjE conjE insertE emptyE) simp_all
  then show ?thesis by (rule new_BankStatementData_rejects)
qed

text \<open>
  Every fault of the classification, stated on what the agent, the parser and pydantic
  give: the agent raises; its reply lacks a delimiter; the slice is not JSON; the object
  lacks a boolean the field accepts; or the object says \<^verbatim>\<open>false\<close>.
\<close>

lemma classification_fault:
  assumes "agent env document = Inl e \<or>
           (agent env document = Inr reply \<and>
            (CHR ''{'' \<notin> set reply \<or> CHR ''}'' \<notin> set reply \<or>
             json_loads env (str_slice reply (str_find reply (CHR ''{''))
                               (str_rfind reply (CHR ''}'') + 1)) = Inl e \<or>
             (json_loads env (str_slice reply (str_find reply (CHR ''{''))
                               (str_rfind reply (CHR ''}'') + 1)) = Inr (JObj obj) \<and>
              (map_of obj ''is_bank_statement'' = None \<or>
               (\<exists>v. map_of obj ''is_bank_statement'' = Some v \<and> pydantic_bool env v = None) \<or>
               map_of obj ''is_bank_statement'' = Some (JBool False)))))"
  shows "validate_bank_statement env document = False"
proof (cases "agent env document")
  case (Inl e')
  then show ?thesis by (simp add: validate_bank_statement_def validate_try_agent_fault)
next
  case (Inr reply')
  with assms have r: "agent env document = Inr reply" by auto
  show ?thesis
  proof (cases "CHR ''{'' \<notin> set reply \<or> CHR ''}'' \<notin> set reply")
    case True
    with r show ?thesis by (simp add: validate_bank_statement_def validate_try_no_json)
  next
    case False
    then have b: "CHR ''{'' \<in> set reply" "CHR ''}'' \<in> set reply" by simp_all
    note v = validate_try_json [OF r b]
    from assms r False consider
        (json) "json_loads env (str_slice reply (str_find reply (CHR ''{''))
                               (str_rfind reply (CHR ''}'') + 1)) = Inl e"
      | (schema) "json_loads env (str_slice reply (str_find reply (CHR ''{''))
                               (str_rfind reply (CHR ''}'') + 1)) = Inr (JObj obj)"
          "field_bool env obj ''is_bank_statement'' = None"
      | (negative) "json_loads env (str_slice reply (str_find reply (CHR ''{''))
                               (str_rfind reply (CHR ''}'') + 1)) = Inr (JObj obj)"
          "map_of obj ''is_bank_statement'' = Some (JBool False)"
      by (auto simp: field_bool_None)
    then show ?thesis
    proof cases
      case json
      then show ?thesis by (simp add: v validate_bank_statement_def)
    next
      case schema
      then show ?thesis
        by (simp add: v validate_bank_statement_def new_ValidationResult_def)
    next
      case negative
      then show ?thesis
        by (simp add: v validate_bank_statement_def new_ValidationResult_def field_bool_def)
    qed
  qed
qed

text \<open>The same for the extraction: the last case is a required field missing or rejected.\<close>

lemma extraction_fault:
  assumes "agent env document = Inl e \<or>
           (agent env document = Inr reply \<and>
            (CHR ''{'' \<notin> set reply \<or> CHR ''}'' \<notin> set reply \<or>
             json_loads env (str_slice reply (str_find reply (CHR ''{''))
                               (str_rfind reply (CHR ''}'') + 1)) = Inl e \<or>
             (json_loads env (str_slice reply (str_find reply (CHR ''{''))
                               (str_rfind reply (CHR ''}'') + 1)) = Inr (JObj obj) \<and>
              ((name \<in> {''BankName'', ''AccountNumber'', ''StartDate'', ''EndDate''} \<and>
                (map_of obj name = None \<or>
                 (\<exists>v. map_of obj name = Some v \<and> pydantic_str env v = None))) \<or>
               (name \<in> {''OpeningBalance'', ''ClosingBalance''} \<and>
                (map_of obj name = None \<or>
                 (\<exists>v. map_of obj name = Some v \<and> pydantic_float env v = None)))))))"
  shows "\<exists>e'. extract_try env document = Inl e'"
proof (cases "agent env document")
  case (Inl e')
  then show ?thesis by (simp add: extract_try_agent_fault)
next
  case (Inr reply')
  with assms have r: "agent env document = Inr reply" by auto
  show ?thesis
  proof (cases "CHR ''{'' \<notin> set reply \<or> CHR ''}'' \<notin> set reply")
    case True
    with r show ?thesis by (simp add: extract_try_no_json)
  next
    case False
    then have b: "CHR ''{'' \<in> set reply" "CHR ''}'' \<in> set reply" by simp_all
    note x = extract_try_json [OF r b]
    define loaded where
      "loaded = json_loads env (str_slice reply (str_find reply (CHR ''{''))
                                  (str_rfind reply (CHR ''}'') + 1))"
    define rejected where
      "rejected \<longleftrightarrow>
         (name \<in> {''BankName'', ''AccountNumber'', ''StartDate'', ''EndDate''} \<and>
          (map_of obj name = None \<or>
           (\<exists>v. map_of obj name = Some v \<and> pydantic_str env v = None))) \<or>
         (name \<in> {''OpeningBalance'', ''ClosingBalance''} \<and>
          (map_of obj name = None \<or>
           (\<exists>v. map_of obj name = Some v \<and> pydantic_float env v = None)))"
    from assms have "agent env document = Inl e \<or>
           (agent env document = Inr reply \<and>
            (CHR ''{'' \<notin> set reply \<or> CHR ''}'' \<notin> set reply \<or> loaded = Inl e \<or>
             (loaded = Inr (JObj obj) \<and> rejected)))"
      unfolding loaded_def rejected_def .
    with r b consider (json) "loaded = Inl e" | (schema) "loaded = Inr (JObj obj)" "rejected"
      by auto
    then show ?thesis
    proof cases
      case json
      then show ?thesis by (simp add: x loaded_def)
    next
      case schema
      from schema(2) have "new_BankStatementData env (JObj obj)
          = Inl (pydantic_error env ''BankStatementData'' obj)"
        unfolding rejected_def by (rule rejected_field_fails)
      with schema(1) show ?thesis by (simp add: x loaded_def)
    qed
  qed
qed

lemma extraction_fault_empty:
  "\<exists>e'. extract_try env document = Inl e' \<Longrightarrow> extract_bank_statement_data env document = []"
  by (auto simp: extract_bank_statement_data_def)

lemma extractor_handler_empty:
  assumes "next_retry_count env event = Inr retry_count"
    and "map_of event ''bucket'' = Some bucket" and "map_of event ''key'' = Some key"
    and "get_object env bucket key = Inr file_content"
    and "extract_bank_statement_data env file_content = []"
  shows "\<exists>r. extractor_handler env event = Inr r \<and> map_of r ''valid'' = Some (JBool False) \<and>
             map_of r ''extracted_data'' = Some (JObj []) \<and>
             map_of r ''retry_count'' = Some retry_count"
proof (cases "json_dumps env (JObj event)")
  case (Inl e)
  then have "extractor_try env event = Inl e" by (rule extractor_try_dump_fault)
  with assms(1) show ?thesis by (simp add: extractor_handler_def failure_response_def)
next
  case (Inr event_text)
  from extractor_try_fetched [OF Inr assms(2,3,4,1)] assms(5) show ?thesis
    by (simp add: extractor_handler_def)
qed

lemma extractor_handler_store_invalid:
  assumes "next_retry_count env event = Inr retry_count"
    and "map_of event ''bucket'' = Some bucket" and "map_of event ''key'' = Some key"
    and "get_object env bucket key = Inl e"
  shows "\<exists>r. extractor_handler env event = Inr r \<and> map_of r ''valid'' = Some (JBool False) \<and>
             map_of r ''extracted_data'' = Some (JObj []) \<and>
             map_of r ''retry_count'' = Some retry_count \<and> map_of r ''error'' \<noteq> None"
proof (cases "json_dumps env (JObj event)")
  case (Inl e')
  then have "extractor_try env event = Inl e'" by (rule extractor_try_dump_fault)
  with assms(1) show ?thesis by (simp add: extractor_handler_def failure_response_def)
next
  case (Inr event_text)
  from extractor_try_store_fault [OF Inr assms(2,3,4)] assms(1) show ?thesis
    by (simp add: extractor_handler_def failure_response_def)
qed

lemma slice_whole:
  "str_slice (CHR ''{'' # mid @ [CHR ''}'']) (str_find (CHR ''{'' # mid @ [CHR ''}'']) (CHR ''{''))
     (str_rfind (CHR ''{'' # mid @ [CHR ''}'']) (CHR ''}'') + 1) = CHR ''{'' # mid @ [CHR ''}'']"
proof -
  have "CHR ''{'' \<notin> set []" and "CHR ''}'' \<notin> set []" by simp_all
  from slice_between [OF this, of mid] show ?thesis by simp
qed

lemma stub_agent: "agent (stub_env stored reply) document = reply"
  by (simp add: stub_env_def)

lemma stub_incomplete_loads:
  "json_loads (stub_env stored reply)
     (str_slice incomplete_text (str_find incomplete_text (CHR ''{''))
        (str_rfind incomplete_text (CHR ''}'') + 1)) = Inr (JObj incomplete_object)"
proof -
  have "str_slice incomplete_text (str_find incomplete_text (CHR ''{''))
        (str_rfind incomplete_text (CHR ''}'') + 1) = incomplete_text"
    unfolding incomplete_text_def by (rule slice_whole)
  moreover have "json_loads (stub_env stored reply) incomplete_text = Inr (JObj incomplete_object)"
    by (simp add: stub_env_def stub_loads_def incomplete_text_def statement_text_def
        incomplete_fields_def statement_fields_def)
  ultimately show ?thesis by simp
qed

section \<open>The claims\<close>

text \<open>
  Claim C1, as stated, fails in the Validator: when the object store fails, the handler
  returns the status-500 dictionary, which has no \<^verbatim>\<open>valid\<close> entry, so not \<^verbatim>\<open>valid\<close> false.
\<close>

theorem validator_store_fault_counterexample:
  "get_object (stub_env ''%PDF'' (Inr ''{\"is_bank_statement\": true}'')) (JStr ''docs'') (JStr ''lost.pdf'')
     = Inl no_such_key \<and>
   validator_handler (stub_env ''%PDF'' (Inr ''{\"is_bank_statement\": true}'')) lost_event
     = Inr [(''statusCode'', JInt 500),
            (''error'', JStr ''An exception occurred in the input_validator Lambda: The specified key does not exist.'')] \<and>
   map_of [(''statusCode'', JInt 500),
           (''error'', JStr ''An exception occurred in the input_validator Lambda: The specified key does not exist.'' :: rat json)]
      ''valid'' \<noteq> Some (JBool False)"
proof -
  let ?v = "stub_env ''%PDF'' (Inr ''{\"is_bank_statement\": true}'')"
  have g: "get_object ?v (JStr ''docs'') (JStr ''lost.pdf'') = Inl no_such_key"
    by (simp add: stub_env_def)
  have d: "event_document lost_event = Inr (JStr ''docs'', JStr ''lost.pdf'')"
    by (simp add: event_document_def dict_contains_def dict_get_def lost_event_def)
  have "validator_handler ?v lost_event = Inr (error_response no_such_key)"
    by (rule validator_handler_store_fault [OF d _ _ g]) simp_all
  then have "validator_handler ?v lost_event = Inr [(''statusCode'', JInt 500),
            (''error'', JStr ''An exception occurred in the input_validator Lambda: The specified key does not exist.'')]"
    by (simp add: error_response_def no_such_key_def)
  with g show ?thesis by simp
qed

text \<open>
  Claim C1, amended. The Validator's handler never raises. When the document is fetched and
  the classification fails (the agent raises, its reply lacks a delimiter, the slice is
  not JSON, or the object has no boolean the field accepts) or is negative, it returns
  \<^verbatim>\<open>bucket\<close>, \<^verbatim>\<open>key\<close> and \<^verbatim>\<open>valid\<close> false; when the object store fails, it returns the status-500
  dictionary, which has no \<^verbatim>\<open>valid\<close>. For an event of the envelope's type (\<^verbatim>\<open>retry_count\<close> missing
  or an int), the Extractor's handler never raises, and after an object-store fault, or
  when the agent raises, its reply lacks a delimiter, the slice is not JSON or a required
  field is missing or rejected, it returns a dictionary whose \<^verbatim>\<open>valid\<close> is false.
\<close>

theorem faults_are_returned:
  "(\<exists>r. validator_handler env event = Inr r) \<and>
   (event_document event = Inr (bucket, key) \<and> truthy env bucket \<and> truthy env key \<and>
    get_object env bucket key = Inr file_content \<and>
    (validate_try env file_content = Inl e \<or> validate_try env file_content = Inr False) \<longrightarrow>
      validator_handler env event =
        Inr [(''bucket'', bucket), (''key'', key), (''valid'', JBool False)]) \<and>
   (event_document event = Inr (bucket, key) \<and> truthy env bucket \<and> truthy env key \<and>
    get_object env bucket key = Inr file_content \<and>
    (agent env file_content = Inl e \<or>
     (agent env file_content = Inr reply \<and>
      (CHR ''{'' \<notin> set reply \<or> CHR ''}'' \<notin> set reply \<or>
       json_loads env (str_slice reply (str_find reply (CHR ''{''))
                         (str_rfind reply (CHR ''}'') + 1)) = Inl e \<or>
       (json_loads env (str_slice reply (str_find reply (CHR ''{''))
                         (str_rfind reply (CHR ''}'') + 1)) = Inr (JObj obj) \<and>
        (map_of obj ''is_bank_statement'' = None \<or>
         (\<exists>v. map_of obj ''is_bank_statement'' = Some v \<and> pydantic_bool env v = None) \<or>
         map_of obj ''is_bank_statement'' = Some (JBool False)))))) \<longrightarrow>
      validator_handler env event =
        Inr [(''bucket'', bucket), (''key'', key), (''valid'', JBool False)]) \<and>
   (event_document event = Inr (bucket, key) \<and> truthy env bucket \<and> truthy env key \<and>
    get_object env bucket key = Inl e \<longrightarrow>
      validator_handler env event = Inr (error_response e) \<and>
      map_of (error_response e :: 'f dict) ''valid'' = None) \<and>
   ((map_of event ''retry_count'' = None \<and> n = 0) \<or>
    map_of event ''retry_count'' = Some (JInt n) \<longrightarrow>
      (\<exists>r. extractor_handler env event = Inr r) \<and>
      (map_of event ''bucket'' = Some bucket \<and> map_of event ''key'' = Some key \<and>
       get_object env bucket key = Inl e \<longrightarrow>
         (\<exists>r. extractor_handler env event = Inr r \<and> map_of r ''valid'' = Some (JBool False))) \<and>
      (map_of event ''bucket'' = Some bucket \<and> map_of event ''key'' = Some key \<and>
       get_object env bucket key = Inr file_content \<and> extract_try env file_content = Inl e \<longrightarrow>
         (\<exists>r. extractor_handler env event = Inr r \<and> map_of r ''valid'' = Some (JBool False))) \<and>
      (map_of event ''bucket'' = Some bucket \<and> map_of event ''key'' = Some key \<and>
       get_object env bucket key = Inr file_content \<and>
       (agent env file_content = Inl e \<or>
        (agent env file_content = Inr reply \<and>
         (CHR ''{'' \<notin> set reply \<or> CHR ''}'' \<notin> set reply \<or>
          json_loads env (str_slice reply (str_find reply (CHR ''{''))
                            (str_rfind reply (CHR ''}'') + 1)) = Inl e \<or>
          (json_loads env (str_slice reply (str_find reply (CHR ''{''))
                            (str_rfind reply (CHR ''}'') + 1)) = Inr (JObj obj) \<and>
           ((name \<in> {''BankName'', ''AccountNumber'', ''StartDate'', ''EndDate''} \<and>
             (map_of obj name = None \<or>
              (\<exists>v. map_of obj name = Some v \<and> pydantic_str env v = None))) \<or>
            (name \<in> {''OpeningBalance'', ''ClosingBalance''} \<and>
             (map_of obj name = None \<or>
              (\<exists>v. map_of obj name = Some v \<and> pydantic_float env v = None)))))))) \<longrightarrow>
         (\<exists>r. extractor_handler env event = Inr r \<and> map_of r ''valid'' = Some (JBool False))))"
proof (intro conjI impI)
  show "\<exists>r. validator_handler env event = Inr r" by (rule validator_handler_returns)
next
  assume a: "event_document event = Inr (bucket, key) \<and> truthy env bucket \<and> truthy env key \<and>
    get_object env bucket key = Inr file_content \<and>
    (validate_try env file_content = Inl e \<or> validate_try env file_content = Inr False)"
  then have "validate_try env file_content = Inl e \<or> validate_try env file_content = Inr False"
    by simp
  then have "validate_bank_statement env file_content = False"
    by (rule validate_bank_statement_fault)
  with a show "validator_handler env event =
        Inr [(''bucket'', bucket), (''key'', key), (''valid'', JBool False)]"
    by (simp add: validator_handler_fetched)
next
  assume a: "event_document event = Inr (bucket, key) \<and> truthy env bucket \<and> truthy env key \<and>
    get_object env bucket key = Inr file_content \<and>
    (agent env file_content = Inl e \<or>
     (agent env file_content = Inr reply \<and>
      (CHR ''{'' \<notin> set reply \<or> CHR ''}'' \<notin> set reply \<or>
       json_loads env (str_slice reply (str_find reply (CHR ''{''))
                         (str_rfind reply (CHR ''}'') + 1)) = Inl e \<or>
       (json_loads env (str_slice reply (str_find reply (CHR ''{''))
                         (str_rfind reply (CHR ''}'') + 1)) = Inr (JObj obj) \<and>
        (map_of obj ''is_bank_statement'' = None \<or>
         (\<exists>v. map_of obj ''is_bank_statement'' = Some v \<and> pydantic_bool env v = None) \<or>
         map_of obj ''is_bank_statement'' = Some (JBool False))))))"
  then have "(agent env file_content = Inl e \<or>
     (agent env file_content = Inr reply \<and>
      (CHR ''{'' \<notin> set reply \<or> CHR ''}'' \<notin> set reply \<or>
       json_loads env (str_slice reply (str_find reply (CHR ''{''))
                         (str_rfind reply (CHR ''}'') + 1)) = Inl e \<or>
       (json_loads env (str_slice reply (str_find reply (CHR ''{''))
                         (str_rfind reply (CHR ''}'') + 1)) = Inr (JObj obj) \<and>
        (map_of obj ''is_bank_statement'' = None \<or>
         (\<exists>v. map_of obj ''is_bank_statement'' = Some v \<and> pydantic_bool env v = None) \<or>
         map_of obj ''is_bank_statement'' = Some (JBool False))))))"
    by (elim conjE)
  then have "validate_bank_statement env file_content = False"
    by (rule classification_fault)
  moreover note a [THEN conjunct1] a [THEN conjunct2, THEN conjunct1]
    a [THEN conjunct2, THEN conjunct2, THEN conjunct1]
    a [THEN conjunct2, THEN conjunct2, THEN conjunct2, THEN conjunct1]
  ultimately show "validator_handler env event =
        Inr [(''bucket'', bucket), (''key'', key), (''valid'', JBool False)]"
    by (simp add: validator_handler_fetched)
next
  assume "event_document event = Inr (bucket, key) \<and> truthy env bucket \<and> truthy env key \<and>
    get_object env bucket key = Inl e"
  then show "validator_handler env event = Inr (error_response e)"
    by (simp add: validator_handler_store_fault)
next
  show "map_of (error_response e :: 'f dict) ''valid'' = None"
    by (simp add: error_response_def)
next
  assume "(map_of event ''retry_count'' = None \<and> n = 0) \<or>
    map_of event ''retry_count'' = Some (JInt n)"
  then have "next_retry_count env event = Inr (JInt (n + 1))" by (rule next_retry_count_typed)
  from extractor_handler_returns [OF this]
  show "\<exists>r. extractor_handler env event = Inr r" by blast
next
  assume "(map_of event ''retry_count'' = None \<and> n = 0) \<or>
    map_of event ''retry_count'' = Some (JInt n)"
  then have rc: "next_retry_count env event = Inr (JInt (n + 1))" by (rule next_retry_count_typed)
  assume "map_of event ''bucket'' = Some bucket \<and> map_of event ''key'' = Some key \<and>
       get_object env bucket key = Inl e"
  then have "map_of event ''bucket'' = Some bucket" "map_of event ''key'' = Some key"
    "get_object env bucket key = Inl e" by simp_all
  from extractor_handler_store_invalid [OF rc this]
  show "(\<exists>r. extractor_handler env event = Inr r \<and> map_of r ''valid'' = Some (JBool False))" by blast
next
  assume "(map_of event ''retry_count'' = None \<and> n = 0) \<or>
    map_of event ''retry_count'' = Some (JInt n)"
  then have rc: "next_retry_count env event = Inr (JInt (n + 1))" by (rule next_retry_count_typed)
  assume a: "map_of event ''bucket'' = Some bucket \<and> map_of event ''key'' = Some key \<and>
       get_object env bucket key = Inr file_content \<and> extract_try env file_content = Inl e"
  then have p: "map_of event ''bucket'' = Some bucket" "map_of event ''key'' = Some key"
    "get_object env bucket key = Inr file_content" by simp_all
  from a have "extract_bank_statement_data env file_content = []"
    by (simp add: extract_bank_statement_data_def)
  from extractor_handler_empty [OF rc p this]
  show "(\<exists>r. extractor_handler env event = Inr r \<and> map_of r ''valid'' = Some (JBool False))" by blast
next
  assume "(map_of event ''retry_count'' = None \<and> n = 0) \<or>
    map_of event ''retry_count'' = Some (JInt n)"
  then have rc: "next_retry_count env event = Inr (JInt (n + 1))" by (rule next_retry_count_typed)
  assume a: "map_of event ''bucket'' = Some bucket \<and> map_of event ''key'' = Some key \<and>
       get_object env bucket key = Inr file_content \<and>
       (agent env file_content = Inl e \<or>
        (agent env file_content = Inr reply \<and>
         (CHR ''{'' \<notin> set reply \<or> CHR ''}'' \<notin> set reply \<or>
          json_loads env (str_slice reply (str_find reply (CHR ''{''))
                            (str_rfind reply (CHR ''}'') + 1)) = Inl e \<or>
          (json_loads env (str_slice reply (str_find reply (CHR ''{''))
                            (str_rfind reply (CHR ''}'') + 1)) = Inr (JObj obj) \<and>
           ((name \<in> {''BankName'', ''AccountNumber'', ''StartDate'', ''EndDate''} \<and>
             (map_of obj name = None \<or>
              (\<exists>v. map_of obj name = Some v \<and> pydantic_str env v = None))) \<or>
            (name \<in> {''OpeningBalance'', ''ClosingBalance''} \<and>
             (map_of obj name = None \<or>
              (\<exists>v. map_of obj name = Some v \<and> pydantic_float env v = None))))))))"
  note p = a [THEN conjunct1] a [THEN conjunct2, THEN conjunct1]
    a [THEN conjunct2, THEN conjunct2, THEN conjunct1]
  from a have "(agent env file_content = Inl e \<or>
        (agent env file_content = Inr reply \<and>
         (CHR ''{'' \<notin> set reply \<or> CHR ''}'' \<notin> set reply \<or>
          json_loads env (str_slice reply (str_find reply (CHR ''{''))
                            (str_rfind reply (CHR ''}'') + 1)) = Inl e \<or>
          (json_loads env (str_slice reply (str_find reply (CHR ''{''))
                            (str_rfind reply (CHR ''}'') + 1)) = Inr (JObj obj) \<and>
           ((name \<in> {''BankName'', ''AccountNumber'', ''StartDate'', ''EndDate''} \<and>
             (map_of obj name = None \<or>
              (\<exists>v. map_of obj name = Some v \<and> pydantic_str env v = None))) \<or>
            (name \<in> {''OpeningBalance'', ''ClosingBalance''} \<and>
             (map_of obj name = None \<or>
              (\<exists>v. map_of obj name = Some v \<and> pydantic_float env v = None))))))))"
    by (elim conjE)
  then have "\<exists>e'. extract_try env file_content = Inl e'" by (rule extraction_fault)
  then have "extract_bank_statement_data env file_content = []" by (rule extraction_fault_empty)
  from extractor_handler_empty [OF rc p this]
  show "(\<exists>r. extractor_handler env event = Inr r \<and> map_of r ''valid'' = Some (JBool False))" by blast
qed

theorem faults_are_returned_witness:
  "validator_handler (stub_env ''%PDF'' (Inl throttled)) step_event
     = Inr [(''bucket'', JStr ''docs''), (''key'', JStr ''statement.pdf''), (''valid'', JBool False)] \<and>
   validator_handler (stub_env ''%PDF'' (Inr ''I cannot read this document.'')) step_event
     = Inr [(''bucket'', JStr ''docs''), (''key'', JStr ''statement.pdf''), (''valid'', JBool False)] \<and>
   validator_handler (stub_env ''%PDF'' (Inr ''I cannot read this document.'')) archive_event
     = Inr (error_response no_such_key) \<and>
   (\<exists>r. extractor_handler (stub_env ''%PDF'' (Inl throttled)) retry_event = Inr r \<and>
        map_of r ''valid'' = Some (JBool False)) \<and>
   (\<exists>r. extractor_handler (stub_env ''%PDF'' (Inr incomplete_text)) retry_event = Inr r \<and>
        map_of r ''valid'' = Some (JBool False)) \<and>
   (\<exists>r. extractor_handler (stub_env ''%PDF'' (Inr incomplete_text)) lost_event = Inr r \<and>
        map_of r ''valid'' = Some (JBool False))"
proof -
  let ?a = "stub_env ''%PDF'' (Inl throttled)"
  let ?v = "stub_env ''%PDF'' (Inr ''I cannot read this document.'')"
  let ?x = "stub_env ''%PDF'' (Inr incomplete_text)"
  note t0 = faults_are_returned [where env = ?a and event = step_event
      and bucket = "JStr ''docs''" and key = "JStr ''statement.pdf''"
      and file_content = "''%PDF''" and e = throttled and reply = "[]" and obj = "[]"]
  have c0: "validator_handler ?a step_event
     = Inr [(''bucket'', JStr ''docs''), (''key'', JStr ''statement.pdf''), (''valid'', JBool False)]"
    by (rule t0 [THEN conjunct2, THEN conjunct2, THEN conjunct1, THEN mp])
       (simp add: stub_event_document stub_get_object stub_agent)
  note t1 = faults_are_returned [where env = ?v and event = step_event
      and bucket = "JStr ''docs''" and key = "JStr ''statement.pdf''"
      and file_content = "''%PDF''" and e = no_json_found
      and reply = "''I cannot read this document.''" and obj = "[]"]
  have c1: "validator_handler ?v step_event
     = Inr [(''bucket'', JStr ''docs''), (''key'', JStr ''statement.pdf''), (''valid'', JBool False)]"
    by (rule t1 [THEN conjunct2, THEN conjunct2, THEN conjunct1, THEN mp])
       (simp add: stub_event_document stub_get_object stub_agent)
  note t2 = faults_are_returned [where env = ?v and event = archive_event
      and bucket = "JStr ''archive''" and key = "JStr ''statement.pdf''" and e = no_such_key]
  have "validator_handler ?v archive_event = Inr (error_response no_such_key) \<and>
      map_of (error_response no_such_key :: rat dict) ''valid'' = None"
    by (rule t2 [THEN conjunct2, THEN conjunct2, THEN conjunct2, THEN conjunct1, THEN mp])
       (simp add: stub_event_document stub_get_object)
  then have c2: "validator_handler ?v archive_event = Inr (error_response no_such_key)" by simp
  have typed: "(map_of retry_event ''retry_count'' = None \<and> (2::int) = 0) \<or>
      map_of retry_event ''retry_count'' = Some (JInt 2 :: rat json)"
    by (simp add: retry_event_def)
  have present: "map_of retry_event ''bucket'' = Some (JStr ''docs'' :: rat json)"
    "map_of retry_event ''key'' = Some (JStr ''statement.pdf'' :: rat json)"
    by (simp_all add: retry_event_def)
  note t3 = faults_are_returned [where env = ?a and event = retry_event and n = 2
      and bucket = "JStr ''docs''" and key = "JStr ''statement.pdf''"
      and file_content = "''%PDF''" and e = throttled and reply = "[]" and obj = "[]"
      and name = "[]",
      THEN conjunct2, THEN conjunct2, THEN conjunct2, THEN conjunct2, THEN mp, OF typed]
  have c3: "\<exists>r. extractor_handler ?a retry_event = Inr r \<and> map_of r ''valid'' = Some (JBool False)"
    by (rule t3 [THEN conjunct2, THEN conjunct2, THEN conjunct2, THEN mp])
       (simp add: present stub_get_object stub_agent)
  note t4 = faults_are_returned [where env = ?x and event = retry_event and n = 2
      and bucket = "JStr ''docs''" and key = "JStr ''statement.pdf''"
      and file_content = "''%PDF''" and e = throttled and reply = incomplete_text
      and obj = incomplete_object and name = "''ClosingBalance''",
      THEN conjunct2, THEN conjunct2, THEN conjunct2, THEN conjunct2, THEN mp, OF typed]
  have m: "map_of incomplete_object ''ClosingBalance'' = None"
    by (simp add: incomplete_object_def)
  have c4: "\<exists>r. extractor_handler ?x retry_event = Inr r \<and> map_of r ''valid'' = Some (JBool False)"
    by (rule t4 [THEN conjunct2, THEN conjunct2, THEN conjunct2, THEN mp])
       (simp add: present stub_get_object stub_agent stub_incomplete_loads m)
  have typed0: "(map_of lost_event ''retry_count'' = None \<and> (0::int) = 0) \<or>
      map_of lost_event ''retry_count'' = Some (JInt 0 :: rat json)"
    by (simp add: lost_event_def)
  note t5 = faults_are_returned [where env = ?x and event = lost_event and n = 0
      and bucket = "JStr ''docs''" and key = "JStr ''lost.pdf''" and e = no_such_key,
      THEN conjunct2, THEN conjunct2, THEN conjunct2, THEN conjunct2, THEN mp, OF typed0]
  have c5: "\<exists>r. extractor_handler ?x lost_event = Inr r \<and> map_of r ''valid'' = Some (JBool False)"
    by (rule t5 [THEN conjunct2, THEN conjunct1, THEN mp])
       (simp add: lost_event_def stub_get_object)
  from c0 c1 c2 c3 c4 c5 show ?thesis by (intro conjI)
qed

text \<open>
  Claim C2. For an event whose \<^verbatim>\<open>retry_count\<close> is missing or an int, the Extractor's handler
  returns a dictionary, whatever the store, the agent and the parser do, and its
  \<^verbatim>\<open>retry_count\<close> is the event's plus one, a missing one counting as 0.
\<close>

theorem retry_count_incremented:
  "(map_of event ''retry_count'' = None \<longrightarrow>
      (\<exists>r. extractor_handler env event = Inr r \<and> map_of r ''retry_count'' = Some (JInt 1))) \<and>
   (map_of event ''retry_count'' = Some (JInt n) \<longrightarrow>
      (\<exists>r. extractor_handler env event = Inr r \<and>
           map_of r ''retry_count'' = Some (JInt (n + 1))))"
  using extractor_handler_returns [of env event "JInt 1"]
        extractor_handler_returns [of env event "JInt (n + 1)"]
  by (auto simp: next_retry_count_missing next_retry_count_int)

theorem retry_count_incremented_witness:
  "map_of step_event ''retry_count'' = None \<and>
   (\<exists>r. extractor_handler (stub_env ''%PDF'' (Inr statement_text)) step_event = Inr r \<and>
        map_of r ''retry_count'' = Some (JInt 1)) \<and>
   map_of retry_event ''retry_count'' = Some (JInt (2 :: int)) \<and>
   (\<exists>r. extractor_handler (stub_env ''%PDF'' (Inr ''no json'')) retry_event = Inr r \<and>
        map_of r ''retry_count'' = Some (JInt 3))"
  using retry_count_incremented [of step_event "stub_env ''%PDF'' (Inr statement_text)" 0]
        retry_count_incremented [of retry_event "stub_env ''%PDF'' (Inr ''no json'')" 2]
  by (simp add: step_event_def retry_event_def)

text \<open>
  Claim C3. Every dictionary the Extractor's handler returns has a boolean \<^verbatim>\<open>valid\<close>; when
  it is false, \<^verbatim>\<open>extracted_data\<close> is the empty dictionary; when it is true, the document was
  fetched, the extraction produced a validated model, and \<^verbatim>\<open>extracted_data\<close> is its non-empty
  dump. A dictionary returned by the Validator's handler has no \<^verbatim>\<open>extracted_data\<close> at all.
\<close>

theorem invalid_has_no_data:
  "(extractor_handler env event = Inr r \<longrightarrow>
      (\<exists>b. map_of r ''valid'' = Some (JBool b)) \<and>
      (map_of r ''valid'' = Some (JBool False) \<longrightarrow> map_of r ''extracted_data'' = Some (JObj [])) \<and>
      (map_of r ''valid'' = Some (JBool True) \<longrightarrow>
         (\<exists>bucket key file_content m.
            map_of event ''bucket'' = Some bucket \<and> map_of event ''key'' = Some key \<and>
            get_object env bucket key = Inr file_content \<and>
            extract_try env file_content = Inr m \<and>
            map_of r ''extracted_data'' = Some (JObj (model_dump m)) \<and> model_dump m \<noteq> []))) \<and>
   (validator_handler env event = Inr r \<longrightarrow> map_of r ''extracted_data'' = None)"
proof (intro conjI impI)
  assume h: "validator_handler env event = Inr r"
  show "map_of r ''extracted_data'' = None"
  proof (cases "validator_try env event")
    case (Inl e)
    with h show ?thesis by (auto simp: validator_handler_def error_response_def)
  next
    case (Inr r')
    from validator_try_result [OF Inr] Inr h show ?thesis
      by (auto simp: validator_handler_def)
  qed
next
  assume h: "extractor_handler env event = Inr r"
  show "\<exists>b. map_of r ''valid'' = Some (JBool b)"
  proof (cases "extractor_try env event")
    case (Inl e)
    with h show ?thesis
      by (auto simp: extractor_handler_def failure_response_def split: sum.splits)
  next
    case (Inr r')
    from extractor_try_result [OF Inr] Inr h show ?thesis
      by (auto simp: extractor_handler_def)
  qed
next
  assume h: "extractor_handler env event = Inr r"
    and v: "map_of r ''valid'' = Some (JBool False)"
  show "map_of r ''extracted_data'' = Some (JObj [])"
  proof (cases "extractor_try env event")
    case (Inl e)
    with h show ?thesis
      by (auto simp: extractor_handler_def failure_response_def split: sum.splits)
  next
    case (Inr r')
    from extractor_try_result [OF Inr] Inr h v show ?thesis
      by (auto simp: extractor_handler_def)
  qed
next
  assume h: "extractor_handler env event = Inr r"
    and v: "map_of r ''valid'' = Some (JBool True)"
  show "\<exists>bucket key file_content m.
            map_of event ''bucket'' = Some bucket \<and> map_of event ''key'' = Some key \<and>
            get_object env bucket key = Inr file_content \<and>
            extract_try env file_content = Inr m \<and>
            map_of r ''extracted_data'' = Some (JObj (model_dump m)) \<and> model_dump m \<noteq> []"
  proof (cases "extractor_try env event")
    case (Inl e)
    with h v show ?thesis
      by (auto simp: extractor_handler_def failure_response_def split: sum.splits)
  next
    case (Inr r')
    from extractor_try_result [OF Inr] obtain bucket key file_content retry_count where
      f: "map_of event ''bucket'' = Some bucket" "map_of event ''key'' = Some key"
         "get_object env bucket key = Inr file_content"
      and r': "r' = [(''bucket'', bucket), (''key'', key),
          (''valid'', JBool (extract_bank_statement_data env file_content \<noteq> [])),
          (''extracted_data'', JObj (extract_bank_statement_data env file_content)),
          (''retry_count'', retry_count)]"
      by blast
    from Inr h have "r = r'" by (simp add: extractor_handler_def)
    with r' v have ne: "extract_bank_statement_data env file_content \<noteq> []" by simp
    then obtain m where m: "extract_try env file_content = Inr m"
      by (cases "extract_try env file_content") (auto simp: extract_bank_statement_data_def)
    then have "extract_bank_statement_data env file_content = model_dump m"
      by (simp add: extract_bank_statement_data_def)
    with f m r' \<open>r = r'\<close> show ?thesis by (auto simp: model_dump_nonempty)
  qed
qed

theorem invalid_has_no_data_witness:
  "extractor_handler (stub_env ''%PDF'' (Inr incomplete_text)) retry_event =
     Inr [(''bucket'', JStr ''docs''), (''key'', JStr ''statement.pdf''),
          (''valid'', JBool False), (''extracted_data'', JObj []), (''retry_count'', JInt 3)] \<and>
   map_of [(''bucket'', JStr ''docs''), (''key'', JStr ''statement.pdf''),
          (''valid'', JBool False), (''extracted_data'', JObj []), (''retry_count'', JInt (3::int))]
      ''extracted_data'' = Some (JObj ([] :: rat dict))"
proof -
  let ?r = "[(''bucket'', JStr ''docs''), (''key'', JStr ''statement.pdf''),
          (''valid'', JBool False), (''extracted_data'', JObj []), (''retry_count'', JInt 3)] :: rat dict"
  have h: "extractor_handler (stub_env ''%PDF'' (Inr incomplete_text)) retry_event = Inr ?r"
    using extractor_handler_extraction_fault [where event = retry_event
        and env = "stub_env ''%PDF'' (Inr incomplete_text)" and retry_count = "JInt 3",
        OF _ _ _ stub_get_object(1) stub_incomplete_fault]
    by (simp add: retry_event_def next_retry_count_int stub_json_dumps)
  have v: "map_of ?r ''valid'' = Some (JBool False)" by simp
  have "map_of ?r ''extracted_data'' = Some (JObj [])"
    using invalid_has_no_data [of "stub_env ''%PDF'' (Inr incomplete_text)" retry_event ?r] h v
    by blast
  with h show ?thesis by blast
qed

text \<open>
  Claim C4. When the agent's reply has no \<^verbatim>\<open>{\<close> or no \<^verbatim>\<open>}\<close>, the parsing step raises the
  "No JSON object found" error in both routines, \<^verbatim>\<open>validate_bank_statement\<close> returns
  \<^verbatim>\<open>False\<close> and \<^verbatim>\<open>extract_bank_statement_data\<close> returns the empty dictionary. When both
  characters occur but the first \<^verbatim>\<open>{\<close> comes after the last \<^verbatim>\<open>}\<close>, the slice is empty, and
  with a JSON parser that rejects the empty text the two routines fail in the same way.
\<close>

theorem no_delimiters_fail:
  assumes "agent env document = Inr reply"
  shows "(CHR ''{'' \<notin> set reply \<or> CHR ''}'' \<notin> set reply \<longrightarrow>
            validate_try env document = Inl no_json_found \<and>
            validate_bank_statement env document = False \<and>
            extract_try env document = Inl no_json_found \<and>
            extract_bank_statement_data env document = []) \<and>
         (CHR ''{'' \<in> set reply \<and> CHR ''}'' \<in> set reply \<and>
          str_rfind reply (CHR ''}'') < str_find reply (CHR ''{'') \<and>
          json_loads env [] = Inl e \<longrightarrow>
            validate_try env document = Inl e \<and>
            validate_bank_statement env document = False \<and>
            extract_try env document = Inl e \<and>
            extract_bank_statement_data env document = [])"
proof (intro conjI impI)
  assume a: "CHR ''{'' \<notin> set reply \<or> CHR ''}'' \<notin> set reply"
  from assms a show v: "validate_try env document = Inl no_json_found"
    by (rule validate_try_no_json)
  from assms a show x: "extract_try env document = Inl no_json_found"
    by (rule extract_try_no_json)
  from v show "validate_bank_statement env document = False"
    by (simp add: validate_bank_statement_def)
  from x show "extract_bank_statement_data env document = []"
    by (simp add: extract_bank_statement_data_def)
next
  assume a: "CHR ''{'' \<in> set reply \<and> CHR ''}'' \<in> set reply \<and>
          str_rfind reply (CHR ''}'') < str_find reply (CHR ''{'') \<and>
          json_loads env [] = Inl e"
  then have s: "str_slice reply (str_find reply (CHR ''{'')) (str_rfind reply (CHR ''}'') + 1) = []"
    by (simp add: slice_reversed)
  from a s validate_try_json [OF assms, of] show v: "validate_try env document = Inl e"
    by simp
  from a s extract_try_json [OF assms] show x: "extract_try env document = Inl e"
    by simp
  from v show "validate_bank_statement env document = False"
    by (simp add: validate_bank_statement_def)
  from x show "extract_bank_statement_data env document = []"
    by (simp add: extract_bank_statement_data_def)
qed

theorem no_delimiters_fail_witness:
  "CHR ''{'' \<notin> set ''I cannot read this document.'' \<and>
   validate_bank_statement (stub_env ''%PDF'' (Inr ''I cannot read this document.'')) ''%PDF'' = False \<and>
   extract_bank_statement_data (stub_env ''%PDF'' (Inr ''I cannot read this document.'')) ''%PDF'' = [] \<and>
   str_rfind ''} then {'' (CHR ''}'') < str_find ''} then {'' (CHR ''{'') \<and>
   validate_bank_statement (stub_env ''%PDF'' (Inr ''} then {'')) ''%PDF'' = False \<and>
   extract_bank_statement_data (stub_env ''%PDF'' (Inr ''} then {'')) ''%PDF'' = []"
proof -
  let ?n = "stub_env ''%PDF'' (Inr ''I cannot read this document.'')"
  let ?r = "stub_env ''%PDF'' (Inr ''} then {'')"
  have n1: "agent ?n ''%PDF'' = Inr ''I cannot read this document.''" by (simp add: stub_env_def)
  have n2: "CHR ''{'' \<notin> set ''I cannot read this document.''" by simp
  have c1: "validate_try ?n ''%PDF'' = Inl no_json_found \<and>
            validate_bank_statement ?n ''%PDF'' = False \<and>
            extract_try ?n ''%PDF'' = Inl no_json_found \<and>
            extract_bank_statement_data ?n ''%PDF'' = []"
    by (rule no_delimiters_fail [OF n1, THEN conjunct1, THEN mp]) simp
  have r1: "agent ?r ''%PDF'' = Inr ''} then {''" by (simp add: stub_env_def)
  have r2: "str_rfind ''} then {'' (CHR ''}'') < str_find ''} then {'' (CHR ''{'')" by simp
  have r3: "json_loads ?r [] = Inl json_decode_error" by (simp add: stub_env_def stub_loads_def statement_text_def incomplete_text_def)
  have c2: "validate_try ?r ''%PDF'' = Inl json_decode_error \<and>
            validate_bank_statement ?r ''%PDF'' = False \<and>
            extract_try ?r ''%PDF'' = Inl json_decode_error \<and>
            extract_bank_statement_data ?r ''%PDF'' = []"
    by (rule no_delimiters_fail [OF r1, THEN conjunct2, THEN mp]) (use r2 r3 in simp)
  from n2 c1 r2 c2 show ?thesis by (intro conjI) simp_all
qed



text \<open>
  Claim C6. Let the agent's reply contain both delimiters. If the sliced text is not valid
  JSON, both routines fail with the parser's exception; if it parses to an object in which
  a required field is missing or holds a value its pydantic field rejects, the routine
  fails with pydantic's validation error. In each case the Validator's routine returns
  \<^verbatim>\<open>False\<close> and the Extractor's the empty dictionary. The Extractor's routine never returns
  part of a record: its result is empty or has exactly the six fields.
\<close>

theorem schema_fault_returns_nothing:
  assumes "agent env document = Inr reply"
    and "CHR ''{'' \<in> set reply" and "CHR ''}'' \<in> set reply"
    and "cleaned_json_str =
           str_slice reply (str_find reply (CHR ''{'')) (str_rfind reply (CHR ''}'') + 1)"
  shows "(json_loads env cleaned_json_str = Inl e \<longrightarrow>
            validate_try env document = Inl e \<and> validate_bank_statement env document = False \<and>
            extract_try env document = Inl e \<and> extract_bank_statement_data env document = []) \<and>
         (json_loads env cleaned_json_str = Inr (JObj obj) \<and>
          (map_of obj ''is_bank_statement'' = None \<or>
           (\<exists>v. map_of obj ''is_bank_statement'' = Some v \<and> pydantic_bool env v = None)) \<longrightarrow>
            validate_try env document = Inl (pydantic_error env ''ValidationResult'' obj) \<and>
            validate_bank_statement env document = False) \<and>
         (json_loads env cleaned_json_str = Inr (JObj obj) \<and>
          ((name \<in> {''BankName'', ''AccountNumber'', ''StartDate'', ''EndDate''} \<and>
            (map_of obj name = None \<or>
             (\<exists>v. map_of obj name = Some v \<and> pydantic_str env v = None))) \<or>
           (name \<in> {''OpeningBalance'', ''ClosingBalance''} \<and>
            (map_of obj name = None \<or>
             (\<exists>v. map_of obj name = Some v \<and> pydantic_float env v = None)))) \<longrightarrow>
            extract_try env document = Inl (pydantic_error env ''BankStatementData'' obj) \<and>
            extract_bank_statement_data env document = []) \<and>
         (extract_bank_statement_data env document = [] \<or>
          map fst (extract_bank_statement_data env document) =
            [''BankName'', ''AccountNumber'', ''OpeningBalance'', ''ClosingBalance'',
             ''StartDate'', ''EndDate''])"
proof -
  note v = validate_try_json [OF assms(1,2,3), folded assms(4)]
  note x = extract_try_json [OF assms(1,2,3), folded assms(4)]
  have p1: "json_loads env cleaned_json_str = Inl e \<longrightarrow>
            validate_try env document = Inl e \<and> validate_bank_statement env document = False \<and>
            extract_try env document = Inl e \<and> extract_bank_statement_data env document = []"
    by (simp add: v x validate_bank_statement_def extract_bank_statement_data_def)
  have p2: "json_loads env cleaned_json_str = Inr (JObj obj) \<and>
          (map_of obj ''is_bank_statement'' = None \<or>
           (\<exists>v. map_of obj ''is_bank_statement'' = Some v \<and> pydantic_bool env v = None)) \<longrightarrow>
            validate_try env document = Inl (pydantic_error env ''ValidationResult'' obj) \<and>
            validate_bank_statement env document = False"
  proof
    assume a: "json_loads env cleaned_json_str = Inr (JObj obj) \<and>
          (map_of obj ''is_bank_statement'' = None \<or>
           (\<exists>v. map_of obj ''is_bank_statement'' = Some v \<and> pydantic_bool env v = None))"
    then have "field_bool env obj ''is_bank_statement'' = None"
      by (simp add: field_bool_None)
    then have "new_ValidationResult env (JObj obj) = Inl (pydantic_error env ''ValidationResult'' obj)"
      by (simp add: new_ValidationResult_def)
    with a show "validate_try env document = Inl (pydantic_error env ''ValidationResult'' obj) \<and>
            validate_bank_statement env document = False"
      by (simp add: v validate_bank_statement_def)
  qed
  have p3: "json_loads env cleaned_json_str = Inr (JObj obj) \<and>
          ((name \<in> {''BankName'', ''AccountNumber'', ''StartDate'', ''EndDate''} \<and>
            (map_of obj name = None \<or>
             (\<exists>v. map_of obj name = Some v \<and> pydantic_str env v = None))) \<or>
           (name \<in> {''OpeningBalance'', ''ClosingBalance''} \<and>
            (map_of obj name = None \<or>
             (\<exists>v. map_of obj name = Some v \<and> pydantic_float env v = None)))) \<longrightarrow>
            extract_try env document = Inl (pydantic_error env ''BankStatementData'' obj) \<and>
            extract_bank_statement_data env document = []"
  proof
    assume a: "json_loads env cleaned_json_str = Inr (JObj obj) \<and>
          ((name \<in> {''BankName'', ''AccountNumber'', ''StartDate'', ''EndDate''} \<and>
            (map_of obj name = None \<or>
             (\<exists>v. map_of obj name = Some v \<and> pydantic_str env v = None))) \<or>
           (name \<in> {''OpeningBalance'', ''ClosingBalance''} \<and>
            (map_of obj name = None \<or>
             (\<exists>v. map_of obj name = Some v \<and> pydantic_float env v = None))))"
    then have "(name \<in> {''BankName'', ''AccountNumber'', ''StartDate'', ''EndDate''} \<and>
                 field_str env obj name = None) \<or>
               (name \<in> {''OpeningBalance'', ''ClosingBalance''} \<and> field_float env obj name = None)"
      by (simp add: field_str_None field_float_None)
    then have "field_str env obj ''BankName'' = None \<or> field_str env obj ''AccountNumber'' = None \<or>
       field_float env obj ''OpeningBalance'' = None \<or> field_float env obj ''ClosingBalance'' = None \<or>
       field_str env obj ''StartDate'' = None \<or> field_str env obj ''EndDate'' = None"
      by (elim disjE conjE insertE emptyE) simp_all
    then have "new_BankStatementData env (JObj obj) = Inl (pydantic_error env ''BankStatementData'' obj)"
      by (rule new_BankStatementData_rejects)
    with a show "extract_try env document = Inl (pydantic_error env ''BankStatementData'' obj) \<and>
            extract_bank_statement_data env document = []"
      by (simp add: x extract_bank_statement_data_def)
  qed
  from p1 p2 p3 extract_all_or_nothing [of env document] show ?thesis by blast
qed

theorem schema_fault_returns_nothing_witness:
  "json_loads (stub_env ''%PDF'' (Inr (''Here: '' @ incomplete_text))) incomplete_text
     = Inr (JObj incomplete_object) \<and>
   map_of incomplete_object ''ClosingBalance'' = None \<and>
   extract_try (stub_env ''%PDF'' (Inr (''Here: '' @ incomplete_text))) ''%PDF''
     = Inl (LibraryError ''ValidationError'' ''BankStatementData'') \<and>
   extract_bank_statement_data (stub_env ''%PDF'' (Inr (''Here: '' @ incomplete_text))) ''%PDF'' = [] \<and>
   validate_bank_statement (stub_env ''%PDF'' (Inr ''{\"is_bank_statement\": null}'')) ''%PDF'' = False \<and>
   extract_bank_statement_data (stub_env ''%PDF'' (Inr ''{not json}'')) ''%PDF'' = []"
proof -
  let ?x = "stub_env ''%PDF'' (Inr (''Here: '' @ incomplete_text))"
  let ?v = "stub_env ''%PDF'' (Inr ''{\"is_bank_statement\": null}'')"
  let ?j = "stub_env ''%PDF'' (Inr ''{not json}'')"
  let ?t = "''Here: '' @ incomplete_text"
  have x1: "agent ?x ''%PDF'' = Inr ?t" by (simp add: stub_env_def)
  have x2: "CHR ''{'' \<in> set ?t" and x3: "CHR ''}'' \<in> set ?t"
    by (simp_all add: incomplete_text_def)
  have "CHR ''{'' \<notin> set ''Here: ''" and "CHR ''}'' \<notin> set []" by simp_all
  from slice_between [OF this, of incomplete_fields]
  have x4: "incomplete_text = str_slice ?t (str_find ?t (CHR ''{'')) (str_rfind ?t (CHR ''}'') + 1)"
    by (simp add: incomplete_text_def)
  have x5: "json_loads ?x incomplete_text = Inr (JObj incomplete_object)"
    by (simp add: stub_env_def stub_loads_def incomplete_text_def statement_text_def
        incomplete_fields_def statement_fields_def)
  have x6: "map_of incomplete_object ''ClosingBalance'' = None"
    by (simp add: incomplete_object_def)
  have x7: "pydantic_error ?x ''BankStatementData'' incomplete_object
      = LibraryError ''ValidationError'' ''BankStatementData''"
    by (simp add: stub_env_def)
  note t = schema_fault_returns_nothing [OF x1 x2 x3 x4,
      where obj = incomplete_object and name = "''ClosingBalance''"]
  have "extract_try ?x ''%PDF'' = Inl (pydantic_error ?x ''BankStatementData'' incomplete_object) \<and>
      extract_bank_statement_data ?x ''%PDF'' = []"
    by (rule t [THEN conjunct2, THEN conjunct2, THEN conjunct1, THEN mp]) (use x5 x6 in simp)
  with x7 have c1: "extract_try ?x ''%PDF'' = Inl (LibraryError ''ValidationError'' ''BankStatementData'') \<and>
      extract_bank_statement_data ?x ''%PDF'' = []" by simp
  have v1: "agent ?v ''%PDF'' = Inr ''{\"is_bank_statement\": null}''" by (simp add: stub_env_def)
  have v2: "CHR ''{'' \<in> set ''{\"is_bank_statement\": null}''"
    and v3: "CHR ''}'' \<in> set ''{\"is_bank_statement\": null}''" by simp_all
  have v4: "''{\"is_bank_statement\": null}'' =
      str_slice ''{\"is_bank_statement\": null}'' (str_find ''{\"is_bank_statement\": null}'' (CHR ''{''))
        (str_rfind ''{\"is_bank_statement\": null}'' (CHR ''}'') + 1)"
    by code_simp
  have v5: "json_loads ?v ''{\"is_bank_statement\": null}'' = Inr (JObj [(''is_bank_statement'', JNull)])"
    by code_simp
  have v6: "map_of [(''is_bank_statement'', JNull :: rat json)] ''is_bank_statement'' = Some JNull \<and>
      pydantic_bool ?v JNull = None"
    by (simp add: stub_env_def)
  note u = schema_fault_returns_nothing [OF v1 v2 v3 v4,
      where obj = "[(''is_bank_statement'', JNull)]"]
  have "validate_try ?v ''%PDF''
          = Inl (pydantic_error ?v ''ValidationResult'' [(''is_bank_statement'', JNull)]) \<and>
        validate_bank_statement ?v ''%PDF'' = False"
    by (rule u [THEN conjunct2, THEN conjunct1, THEN mp]) (use v5 v6 in simp)
  then have c2: "validate_bank_statement ?v ''%PDF'' = False" by simp
  have j1: "agent ?j ''%PDF'' = Inr ''{not json}''" by (simp add: stub_env_def)
  have j2: "CHR ''{'' \<in> set ''{not json}''" and j3: "CHR ''}'' \<in> set ''{not json}''" by simp_all
  have j4: "''{not json}'' =
      str_slice ''{not json}'' (str_find ''{not json}'' (CHR ''{'')) (str_rfind ''{not json}'' (CHR ''}'') + 1)"
    by code_simp
  have j5: "json_loads ?j ''{not json}'' = Inl json_decode_error" by code_simp
  note w = schema_fault_returns_nothing [OF j1 j2 j3 j4, where e = json_decode_error]
  have "validate_try ?j ''%PDF'' = Inl json_decode_error \<and>
        validate_bank_statement ?j ''%PDF'' = False \<and>
        extract_try ?j ''%PDF'' = Inl json_decode_error \<and>
        extract_bank_statement_data ?j ''%PDF'' = []"
    by (rule w [THEN conjunct1, THEN mp]) (rule j5)
  then have c3: "extract_bank_statement_data ?j ''%PDF'' = []" by simp
  from x5 x6 c1 c2 c3 show ?thesis by simp
qed

text \<open>
  Claim C7, as stated, fails: when the agent's reply lacks \<^verbatim>\<open>ClosingBalance\<close>, the extraction
  routine absorbs pydantic's error and the handler returns a failure dictionary without an
  \<^verbatim>\<open>error\<close> entry.
\<close>

theorem extractor_schema_fault_counterexample:
  "extract_try (stub_env ''%PDF'' (Inr incomplete_text)) ''%PDF''
     = Inl (LibraryError ''ValidationError'' ''BankStatementData'') \<and>
   extractor_handler (stub_env ''%PDF'' (Inr incomplete_text)) step_event
     = Inr [(''bucket'', JStr ''docs''), (''key'', JStr ''statement.pdf''), (''valid'', JBool False),
            (''extracted_data'', JObj []), (''retry_count'', JInt 1)] \<and>
   map_of [(''bucket'', JStr ''docs''), (''key'', JStr ''statement.pdf''), (''valid'', JBool False),
           (''extracted_data'', JObj []), (''retry_count'', JInt 1 :: rat json)] ''error'' = None"
proof -
  let ?x = "stub_env ''%PDF'' (Inr incomplete_text)"
  have t: "extract_try ?x ''%PDF'' = Inl (LibraryError ''ValidationError'' ''BankStatementData'')"
    by (rule stub_incomplete_fault)
  have b: "map_of step_event ''bucket'' = Some (JStr ''docs'')"
    and k: "map_of step_event ''key'' = Some (JStr ''statement.pdf'')"
    by (simp_all add: step_event_def)
  have rc: "next_retry_count ?x step_event = Inr (JInt 1)"
    by (rule next_retry_count_missing) (simp add: step_event_def)
  have d: "json_dumps ?x (JObj step_event) = Inr ''{...}''"
    by (rule stub_json_dumps) (simp add: step_event_def)
  from extractor_handler_extraction_fault [OF d b k stub_get_object(1) t rc] t show ?thesis by simp
qed

text \<open>
  Claim C7, amended. For an event of the envelope's type (\<^verbatim>\<open>retry_count\<close> missing, counted as
  0, or an int), every failing invocation of the Extractor returns \<^verbatim>\<open>valid\<close> false,
  \<^verbatim>\<open>extracted_data\<close> empty and \<^verbatim>\<open>retry_count\<close> plus one. The \<^verbatim>\<open>error\<close> entry holds \<^verbatim>\<open>str(e)\<close> when the
  exception is raised in the handler itself (\<^verbatim>\<open>json.dumps\<close> of the event, a missing \<^verbatim>\<open>bucket\<close>
  or \<^verbatim>\<open>key\<close>, an object-store fault). When the extraction routine fails (the agent raises,
  its reply lacks a delimiter, the slice is not JSON, or a required field is missing or
  rejected), the dictionary has no \<^verbatim>\<open>error\<close> entry.
\<close>

theorem extractor_failure_result:
  assumes "(map_of event ''retry_count'' = None \<and> n = 0) \<or>
    map_of event ''retry_count'' = Some (JInt n)"
  shows "(json_dumps env (JObj event) = Inl e \<longrightarrow>
            extractor_handler env event =
              Inr [(''bucket'', dict_get event ''bucket''), (''key'', dict_get event ''key''), (''valid'', JBool False),
                   (''extracted_data'', JObj []), (''retry_count'', JInt (n + 1)),
                   (''error'', JStr (str_exn e))]) \<and>
         (json_dumps env (JObj event) = Inr event_text \<longrightarrow>
            (map_of event ''bucket'' = None \<longrightarrow>
               extractor_handler env event =
                 Inr [(''bucket'', JNull), (''key'', dict_get event ''key''), (''valid'', JBool False),
                   (''extracted_data'', JObj []), (''retry_count'', JInt (n + 1)),
                   (''error'', JStr (py_repr ''bucket''))]) \<and>
            (map_of event ''bucket'' = Some bucket \<and> map_of event ''key'' = None \<longrightarrow>
               extractor_handler env event =
                 Inr [(''bucket'', bucket), (''key'', JNull), (''valid'', JBool False),
                   (''extracted_data'', JObj []), (''retry_count'', JInt (n + 1)),
                   (''error'', JStr (py_repr ''key''))]) \<and>
            (map_of event ''bucket'' = Some bucket \<and> map_of event ''key'' = Some key \<and>
             get_object env bucket key = Inl e \<longrightarrow>
               extractor_handler env event =
                 Inr [(''bucket'', bucket), (''key'', key), (''valid'', JBool False),
                   (''extracted_data'', JObj []), (''retry_count'', JInt (n + 1)),
                   (''error'', JStr (str_exn e))]) \<and>
            (map_of event ''bucket'' = Some bucket \<and> map_of event ''key'' = Some key \<and>
             get_object env bucket key = Inr file_content \<and>
             extract_try env file_content = Inl e \<longrightarrow>
               extractor_handler env event =
                 Inr [(''bucket'', bucket), (''key'', key), (''valid'', JBool False),
                   (''extracted_data'', JObj []), (''retry_count'', JInt (n + 1))]) \<and>
            (map_of event ''bucket'' = Some bucket \<and> map_of event ''key'' = Some key \<and>
             get_object env bucket key = Inr file_content \<and>
             (agent env file_content = Inl e \<or>
              (agent env file_content = Inr reply \<and>
               (CHR ''{'' \<notin> set reply \<or> CHR ''}'' \<notin> set reply \<or>
                json_loads env (str_slice reply (str_find reply (CHR ''{''))
                                  (str_rfind reply (CHR ''}'') + 1)) = Inl e \<or>
                (json_loads env (str_slice reply (str_find reply (CHR ''{''))
                                  (str_rfind reply (CHR ''}'') + 1)) = Inr (JObj obj) \<and>
                 ((name \<in> {''BankName'', ''AccountNumber'', ''StartDate'', ''EndDate''} \<and>
                   (map_of obj name = None \<or>
                    (\<exists>v. map_of obj name = Some v \<and> pydantic_str env v = None))) \<or>
                  (name \<in> {''OpeningBalance'', ''ClosingBalance''} \<and>
                   (map_of obj name = None \<or>
                    (\<exists>v. map_of obj name = Some v \<and> pydantic_float env v = None)))))))) \<longrightarrow>
               extractor_handler env event =
                 Inr [(''bucket'', bucket), (''key'', key), (''valid'', JBool False),
                   (''extracted_data'', JObj []), (''retry_count'', JInt (n + 1))]))"
proof -
  from assms have rc: "next_retry_count env event = Inr (JInt (n + 1))"
    by (rule next_retry_count_typed)
  show ?thesis
  proof (intro conjI impI)
    assume "json_dumps env (JObj event) = Inl e"
    then have "extractor_try env event = Inl e" by (rule extractor_try_dump_fault)
    then show "extractor_handler env event =
              Inr [(''bucket'', dict_get event ''bucket''), (''key'', dict_get event ''key''), (''valid'', JBool False),
                   (''extracted_data'', JObj []), (''retry_count'', JInt (n + 1)),
                   (''error'', JStr (str_exn e))]"
      by (simp add: extractor_handler_def rc failure_response_def)
  next
    assume d: "json_dumps env (JObj event) = Inr event_text" and "map_of event ''bucket'' = None"
    from extractor_try_no_bucket [OF this]
    show "extractor_handler env event =
                 Inr [(''bucket'', JNull), (''key'', dict_get event ''key''), (''valid'', JBool False),
                   (''extracted_data'', JObj []), (''retry_count'', JInt (n + 1)),
                   (''error'', JStr (py_repr ''bucket''))]"
      using \<open>map_of event ''bucket'' = None\<close>
      by (simp add: extractor_handler_def rc failure_response_def dict_get_def)
  next
    assume d: "json_dumps env (JObj event) = Inr event_text"
      and a: "map_of event ''bucket'' = Some bucket \<and> map_of event ''key'' = None"
    then have "extractor_try env event = Inl (KeyError (py_repr ''key''))"
      by (simp add: extractor_try_no_key)
    with a show "extractor_handler env event =
                 Inr [(''bucket'', bucket), (''key'', JNull), (''valid'', JBool False),
                   (''extracted_data'', JObj []), (''retry_count'', JInt (n + 1)),
                   (''error'', JStr (py_repr ''key''))]"
      by (simp add: extractor_handler_def rc failure_response_def dict_get_def)
  next
    assume d: "json_dumps env (JObj event) = Inr event_text"
      and a: "map_of event ''bucket'' = Some bucket \<and> map_of event ''key'' = Some key \<and>
             get_object env bucket key = Inl e"
    then show "extractor_handler env event =
                 Inr [(''bucket'', bucket), (''key'', key), (''valid'', JBool False),
                   (''extracted_data'', JObj []), (''retry_count'', JInt (n + 1)),
                   (''error'', JStr (str_exn e))]"
      by (simp add: extractor_handler_store_fault rc)
  next
    assume d: "json_dumps env (JObj event) = Inr event_text"
      and a: "map_of event ''bucket'' = Some bucket \<and> map_of event ''key'' = Some key \<and>
             get_object env bucket key = Inr file_content \<and>
             extract_try env file_content = Inl e"
    then show "extractor_handler env event =
                 Inr [(''bucket'', bucket), (''key'', key), (''valid'', JBool False),
                   (''extracted_data'', JObj []), (''retry_count'', JInt (n + 1))]"
      by (simp add: extractor_handler_extraction_fault rc)
  next
    assume d: "json_dumps env (JObj event) = Inr event_text"
      and a: "map_of event ''bucket'' = Some bucket \<and> map_of event ''key'' = Some key \<and>
             get_object env bucket key = Inr file_content \<and>
             (agent env file_content = Inl e \<or>
              (agent env file_content = Inr reply \<and>
               (CHR ''{'' \<notin> set reply \<or> CHR ''}'' \<notin> set reply \<or>
                json_loads env (str_slice reply (str_find reply (CHR ''{''))
                                  (str_rfind reply (CHR ''}'') + 1)) = Inl e \<or>
                (json_loads env (str_slice reply (str_find reply (CHR ''{''))
                                  (str_rfind reply (CHR ''}'') + 1)) = Inr (JObj obj) \<and>
                 ((name \<in> {''BankName'', ''AccountNumber'', ''StartDate'', ''EndDate''} \<and>
                   (map_of obj name = None \<or>
                    (\<exists>v. map_of obj name = Some v \<and> pydantic_str env v = None))) \<or>
                  (name \<in> {''OpeningBalance'', ''ClosingBalance''} \<and>
                   (map_of obj name = None \<or>
                    (\<exists>v. map_of obj name = Some v \<and> pydantic_float env v = None))))))))"
    note p = a [THEN conjunct1] a [THEN conjunct2, THEN conjunct1]
      a [THEN conjunct2, THEN conjunct2, THEN conjunct1]
    from a have "(agent env file_content = Inl e \<or>
              (agent env file_content = Inr reply \<and>
               (CHR ''{'' \<notin> set reply \<or> CHR ''}'' \<notin> set reply \<or>
                json_loads env (str_slice reply (str_find reply (CHR ''{''))
                                  (str_rfind reply (CHR ''}'') + 1)) = Inl e \<or>
                (json_loads env (str_slice reply (str_find reply (CHR ''{''))
                                  (str_rfind reply (CHR ''}'') + 1)) = Inr (JObj obj) \<and>
                 ((name \<in> {''BankName'', ''AccountNumber'', ''StartDate'', ''EndDate''} \<and>
                   (map_of obj name = None \<or>
                    (\<exists>v. map_of obj name = Some v \<and> pydantic_str env v = None))) \<or>
                  (name \<in> {''OpeningBalance'', ''ClosingBalance''} \<and>
                   (map_of obj name = None \<or>
                    (\<exists>v. map_of obj name = Some v \<and> pydantic_float env v = None))))))))"
      by (elim conjE)
    then have "\<exists>e'. extract_try env file_content = Inl e'" by (rule extraction_fault)
    then obtain e' where "extract_try env file_content = Inl e'" ..
    from extractor_handler_extraction_fault [OF d p this rc]
    show "extractor_handler env event =
                 Inr [(''bucket'', bucket), (''key'', key), (''valid'', JBool False),
                   (''extracted_data'', JObj []), (''retry_count'', JInt (n + 1))]" .
  qed
qed

theorem extractor_failure_result_witness:
  "extractor_handler (stub_env ''%PDF'' (Inl throttled)) retry_event
     = Inr [(''bucket'', JStr ''docs''), (''key'', JStr ''statement.pdf''), (''valid'', JBool False),
            (''extracted_data'', JObj []), (''retry_count'', JInt 3)] \<and>
   extractor_handler (stub_env ''%PDF'' (Inr incomplete_text)) retry_event
     = Inr [(''bucket'', JStr ''docs''), (''key'', JStr ''statement.pdf''), (''valid'', JBool False),
            (''extracted_data'', JObj []), (''retry_count'', JInt 3)] \<and>
   extractor_handler (stub_env ''%PDF'' (Inr incomplete_text)) lost_event
     = Inr [(''bucket'', JStr ''docs''), (''key'', JStr ''lost.pdf''), (''valid'', JBool False),
            (''extracted_data'', JObj []), (''retry_count'', JInt 1),
            (''error'', JStr ''The specified key does not exist.'')] \<and>
   extractor_handler (stub_env ''%PDF'' (Inr statement_text)) huge_event
     = Inr [(''bucket'', JStr ''docs''), (''key'', JStr ''statement.pdf''), (''valid'', JBool False),
            (''extracted_data'', JObj []), (''retry_count'', JInt 1),
            (''error'', JStr ''Exceeds the limit (4300 digits) for integer string conversion'')]"
proof -
  let ?a = "stub_env ''%PDF'' (Inl throttled)"
  let ?x = "stub_env ''%PDF'' (Inr incomplete_text)"
  let ?s = "stub_env ''%PDF'' (Inr statement_text)"
  have r: "(map_of retry_event ''retry_count'' = None \<and> (2::int) = 0) \<or>
           map_of retry_event ''retry_count'' = Some (JInt 2 :: rat json)"
    by (simp add: retry_event_def)
  have dr: "json_dumps (stub_env ''%PDF'' reply) (JObj retry_event) = Inr ''{...}''" for reply
    by (rule stub_json_dumps) (simp add: retry_event_def)
  have present: "map_of retry_event ''bucket'' = Some (JStr ''docs'' :: rat json)"
    "map_of retry_event ''key'' = Some (JStr ''statement.pdf'' :: rat json)"
    by (simp_all add: retry_event_def)
  note t0 = extractor_failure_result [OF r, where env = ?a and event_text = "''{...}''"
      and bucket = "JStr ''docs''" and key = "JStr ''statement.pdf''"
      and file_content = "''%PDF''" and e = throttled and reply = "[]" and obj = "[]"
      and name = "[]", THEN conjunct2, THEN mp, OF dr]
  have "extractor_handler ?a retry_event
     = Inr [(''bucket'', JStr ''docs''), (''key'', JStr ''statement.pdf''), (''valid'', JBool False),
            (''extracted_data'', JObj []), (''retry_count'', JInt (2 + 1))]"
    by (rule t0 [THEN conjunct2, THEN conjunct2, THEN conjunct2, THEN conjunct2, THEN mp])
       (simp add: present stub_get_object stub_agent)
  then have c0: "extractor_handler ?a retry_event
     = Inr [(''bucket'', JStr ''docs''), (''key'', JStr ''statement.pdf''), (''valid'', JBool False),
            (''extracted_data'', JObj []), (''retry_count'', JInt 3)]" by simp
  note t1 = extractor_failure_result [OF r, where env = ?x and event_text = "''{...}''"
      and bucket = "JStr ''docs''" and key = "JStr ''statement.pdf''"
      and file_content = "''%PDF''" and e = throttled and reply = incomplete_text
      and obj = incomplete_object and name = "''ClosingBalance''", THEN conjunct2, THEN mp, OF dr]
  have m: "map_of incomplete_object ''ClosingBalance'' = None"
    by (simp add: incomplete_object_def)
  have "extractor_handler ?x retry_event
     = Inr [(''bucket'', JStr ''docs''), (''key'', JStr ''statement.pdf''), (''valid'', JBool False),
            (''extracted_data'', JObj []), (''retry_count'', JInt (2 + 1))]"
    by (rule t1 [THEN conjunct2, THEN conjunct2, THEN conjunct2, THEN conjunct2, THEN mp])
       (simp add: present stub_get_object stub_agent stub_incomplete_loads m)
  then have c1: "extractor_handler ?x retry_event
     = Inr [(''bucket'', JStr ''docs''), (''key'', JStr ''statement.pdf''), (''valid'', JBool False),
            (''extracted_data'', JObj []), (''retry_count'', JInt 3)]" by simp
  have l: "(map_of lost_event ''retry_count'' = None \<and> (0::int) = 0) \<or>
           map_of lost_event ''retry_count'' = Some (JInt 0 :: rat json)"
    by (simp add: lost_event_def)
  have dl: "json_dumps ?x (JObj lost_event) = Inr ''{...}''"
    by (rule stub_json_dumps) (simp add: lost_event_def)
  note t2 = extractor_failure_result [OF l, where env = ?x and event_text = "''{...}''"
      and bucket = "JStr ''docs''" and key = "JStr ''lost.pdf''" and e = no_such_key,
      THEN conjunct2, THEN mp, OF dl]
  have "extractor_handler ?x lost_event
     = Inr [(''bucket'', JStr ''docs''), (''key'', JStr ''lost.pdf''), (''valid'', JBool False),
            (''extracted_data'', JObj []), (''retry_count'', JInt (0 + 1)),
            (''error'', JStr (str_exn no_such_key))]"
    by (rule t2 [THEN conjunct2, THEN conjunct2, THEN conjunct1, THEN mp])
       (simp add: lost_event_def stub_get_object)
  then have c2: "extractor_handler ?x lost_event
     = Inr [(''bucket'', JStr ''docs''), (''key'', JStr ''lost.pdf''), (''valid'', JBool False),
            (''extracted_data'', JObj []), (''retry_count'', JInt 1),
            (''error'', JStr ''The specified key does not exist.'')]"
    by (simp add: no_such_key_def)
  have h: "(map_of huge_event ''retry_count'' = None \<and> (0::int) = 0) \<or>
           map_of huge_event ''retry_count'' = Some (JInt 0 :: rat json)"
    by (simp add: huge_event_def)
  note t3 = extractor_failure_result [OF h, where env = ?s and e = digit_limit_error]
  have "extractor_handler ?s huge_event
     = Inr [(''bucket'', dict_get huge_event ''bucket''), (''key'', dict_get huge_event ''key''),
            (''valid'', JBool False), (''extracted_data'', JObj []), (''retry_count'', JInt (0 + 1)),
            (''error'', JStr (str_exn digit_limit_error))]"
    by (rule t3 [THEN conjunct1, THEN mp]) (rule stub_json_dumps(2))
  then have c3: "extractor_handler ?s huge_event
     = Inr [(''bucket'', JStr ''docs''), (''key'', JStr ''statement.pdf''), (''valid'', JBool False),
            (''extracted_data'', JObj []), (''retry_count'', JInt 1),
            (''error'', JStr ''Exceeds the limit (4300 digits) for integer string conversion'')]"
    by (simp add: digit_limit_error_def dict_get_def huge_event_def)
  from c0 c1 c2 c3 show ?thesis by (intro conjI)
qed

text \<open>
  Claim C8, as stated, fails: after an object-store fault the Validator's output has no
  \<^verbatim>\<open>valid\<close> entry, and after a successful classification it has no data entry, empty or not.
\<close>

theorem validator_result_counterexample:
  "validator_handler (stub_env ''%PDF'' (Inr ''{\"is_bank_statement\": true}'')) archive_event
     = Inr [(''statusCode'', JInt 500),
            (''error'', JStr ''An exception occurred in the input_validator Lambda: The specified key does not exist.'')] \<and>
   map_of [(''statusCode'', JInt 500),
           (''error'', JStr ''An exception occurred in the input_validator Lambda: The specified key does not exist.'' :: rat json)]
      ''valid'' = None \<and>
   validator_handler (stub_env ''%PDF'' (Inr ''{\"is_bank_statement\": true}'')) step_event
     = Inr [(''bucket'', JStr ''docs''), (''key'', JStr ''statement.pdf''), (''valid'', JBool True)] \<and>
   map_of [(''bucket'', JStr ''docs''), (''key'', JStr ''statement.pdf''), (''valid'', JBool True :: rat json)]
      ''extracted_data'' = None \<and>
   map_of [(''bucket'', JStr ''docs''), (''key'', JStr ''statement.pdf''), (''valid'', JBool True :: rat json)]
      ''data'' = None"
proof -
  let ?v = "stub_env ''%PDF'' (Inr ''{\"is_bank_statement\": true}'')"
  have "validator_handler ?v archive_event = Inr (error_response no_such_key)"
    by (rule validator_handler_store_fault [OF stub_event_document(2) _ _ stub_get_object(3)])
       simp_all
  then have c1: "validator_handler ?v archive_event = Inr [(''statusCode'', JInt 500),
            (''error'', JStr ''An exception occurred in the input_validator Lambda: The specified key does not exist.'')]"
    by (simp add: error_response_def no_such_key_def)
  have "validator_handler ?v step_event = Inr [(''bucket'', JStr ''docs''), (''key'', JStr ''statement.pdf''),
      (''valid'', JBool (validate_bank_statement ?v ''%PDF''))]"
    by (rule validator_handler_fetched [OF stub_event_document(1) _ _ stub_get_object(1)])
       simp_all
  then have c2: "validator_handler ?v step_event
     = Inr [(''bucket'', JStr ''docs''), (''key'', JStr ''statement.pdf''), (''valid'', JBool True)]"
    by (simp add: validate_bank_statement_def stub_true_reply)
  from c1 c2 show ?thesis by simp
qed

text \<open>
  Claim C8, amended. When the event names a non-empty bucket and key and the object is
  fetched, the Validator's output is exactly \<^verbatim>\<open>bucket\<close>, \<^verbatim>\<open>key\<close> and \<^verbatim>\<open>valid\<close>, where \<^verbatim>\<open>valid\<close> is what
  \<^verbatim>\<open>validate_bank_statement\<close> returns: the boolean \<^verbatim>\<open>is_bank_statement\<close> of the parsed object when the
  reply holds one, and false when the routine fails. When the \<^verbatim>\<open>try\<close> block raises, the output
  is the status-500 dictionary. No output has a \<^verbatim>\<open>retry_count\<close>, \<^verbatim>\<open>extracted_data\<close> or \<^verbatim>\<open>data\<close> entry.
\<close>

theorem validator_result_shape:
  "(event_document event = Inr (bucket, key) \<and> truthy env bucket \<and> truthy env key \<and>
    get_object env bucket key = Inr file_content \<longrightarrow>
      validator_handler env event =
        Inr [(''bucket'', bucket), (''key'', key),
             (''valid'', JBool (validate_bank_statement env file_content))] \<and>
      (agent env file_content = Inr reply \<and> CHR ''{'' \<in> set reply \<and> CHR ''}'' \<in> set reply \<and>
       json_loads env (str_slice reply (str_find reply (CHR ''{'')) (str_rfind reply (CHR ''}'') + 1))
         = Inr (JObj obj) \<and>
       map_of obj ''is_bank_statement'' = Some (JBool b) \<longrightarrow>
         validate_bank_statement env file_content = b) \<and>
      (validate_try env file_content = Inl e \<longrightarrow>
         validate_bank_statement env file_content = False)) \<and>
   (validator_try env event = Inl e \<longrightarrow>
      validator_handler env event = Inr (error_response e)) \<and>
   (validator_handler env event = Inr r \<longrightarrow>
      map_of r ''retry_count'' = None \<and> map_of r ''extracted_data'' = None \<and>
      map_of r ''data'' = None)"
proof (intro conjI impI)
  assume "event_document event = Inr (bucket, key) \<and> truthy env bucket \<and> truthy env key \<and>
    get_object env bucket key = Inr file_content"
  then show "validator_handler env event =
        Inr [(''bucket'', bucket), (''key'', key),
             (''valid'', JBool (validate_bank_statement env file_content))]"
    by (simp add: validator_handler_fetched)
next
  assume a: "agent env file_content = Inr reply \<and> CHR ''{'' \<in> set reply \<and> CHR ''}'' \<in> set reply \<and>
       json_loads env (str_slice reply (str_find reply (CHR ''{'')) (str_rfind reply (CHR ''}'') + 1))
         = Inr (JObj obj) \<and>
       map_of obj ''is_bank_statement'' = Some (JBool b)"
  then have "new_ValidationResult env (JObj obj) = Inr \<lparr>is_bank_statement = b\<rparr>"
    by (simp add: new_ValidationResult_def field_bool_def)
  moreover from a have "validate_try env file_content =
     (case json_loads env (str_slice reply (str_find reply (CHR ''{'')) (str_rfind reply (CHR ''}'') + 1)) of
        Inl e \<Rightarrow> Inl e
      | Inr parsed_json \<Rightarrow>
          (case new_ValidationResult env parsed_json of
             Inl e \<Rightarrow> Inl e
           | Inr validation_result \<Rightarrow> Inr (is_bank_statement validation_result)))"
    by (simp add: validate_try_json)
  ultimately have "validate_try env file_content = Inr b" using a by simp
  then show "validate_bank_statement env file_content = b"
    by (simp add: validate_bank_statement_def)
next
  assume "validate_try env file_content = Inl e"
  then show "validate_bank_statement env file_content = False"
    by (simp add: validate_bank_statement_def)
next
  assume "validator_try env event = Inl e"
  then show "validator_handler env event = Inr (error_response e)"
    by (simp add: validator_handler_def)
next
  assume h: "validator_handler env event = Inr r"
  have "map_of r ''retry_count'' = None \<and> map_of r ''extracted_data'' = None \<and>
      map_of r ''data'' = None"
  proof (cases "validator_try env event")
    case (Inl e')
    with h show ?thesis by (auto simp: validator_handler_def error_response_def)
  next
    case (Inr r')
    from validator_try_result [OF Inr] Inr h show ?thesis
      by (auto simp: validator_handler_def)
  qed
  then show "map_of r ''retry_count'' = None" and "map_of r ''extracted_data'' = None"
    and "map_of r ''data'' = None" by simp_all
qed

theorem validator_result_shape_witness:
  "validator_handler (stub_env ''%PDF'' (Inr ''{\"is_bank_statement\": true}'')) step_event
     = Inr [(''bucket'', JStr ''docs''), (''key'', JStr ''statement.pdf''),
            (''valid'', JBool (validate_bank_statement
                 (stub_env ''%PDF'' (Inr ''{\"is_bank_statement\": true}'')) ''%PDF''))] \<and>
   validate_bank_statement (stub_env ''%PDF'' (Inr ''{\"is_bank_statement\": true}'')) ''%PDF'' = True \<and>
   validator_try (stub_env ''%PDF'' (Inr ''{\"is_bank_statement\": true}'')) archive_event
     = Inl no_such_key \<and>
   validator_handler (stub_env ''%PDF'' (Inr ''{\"is_bank_statement\": true}'')) archive_event
     = Inr (error_response no_such_key)"
proof -
  let ?v = "stub_env ''%PDF'' (Inr ''{\"is_bank_statement\": true}'')"
  let ?t = "''{\"is_bank_statement\": true}''"
  note t = validator_result_shape [where env = ?v and event = step_event
      and bucket = "JStr ''docs''" and key = "JStr ''statement.pdf''" and file_content = "''%PDF''"
      and reply = ?t and e = no_json_found and obj = "[(''is_bank_statement'', JBool True)]" and b = True]
  have d: "validator_handler ?v step_event =
        Inr [(''bucket'', JStr ''docs''), (''key'', JStr ''statement.pdf''),
             (''valid'', JBool (validate_bank_statement ?v ''%PDF''))] \<and>
      (agent ?v ''%PDF'' = Inr ?t \<and> CHR ''{'' \<in> set ?t \<and> CHR ''}'' \<in> set ?t \<and>
       json_loads ?v (str_slice ?t (str_find ?t (CHR ''{'')) (str_rfind ?t (CHR ''}'') + 1))
         = Inr (JObj [(''is_bank_statement'', JBool True)]) \<and>
       map_of [(''is_bank_statement'', JBool True :: rat json)] ''is_bank_statement'' = Some (JBool True) \<longrightarrow>
         validate_bank_statement ?v ''%PDF'' = True) \<and>
      (validate_try ?v ''%PDF'' = Inl no_json_found \<longrightarrow> validate_bank_statement ?v ''%PDF'' = False)"
    by (rule t [THEN conjunct1, THEN mp]) (simp add: stub_event_document stub_get_object)
  have "CHR ''{'' \<notin> set []" and "CHR ''}'' \<notin> set []" by simp_all
  from slice_between [OF this, of "''\"is_bank_statement\": true''"]
  have s: "str_slice ?t (str_find ?t (CHR ''{'')) (str_rfind ?t (CHR ''}'') + 1) = ?t" by simp
  have c2: "validate_bank_statement ?v ''%PDF'' = True"
    by (rule d [THEN conjunct2, THEN conjunct1, THEN mp])
       (simp only: s, simp add: stub_env_def stub_loads_def)
  have f: "validator_try ?v archive_event = Inl no_such_key"
    by (simp add: validator_try_def stub_event_document stub_get_object)
  note u = validator_result_shape [where env = ?v and event = archive_event and e = no_such_key]
  have c3: "validator_handler ?v archive_event = Inr (error_response no_such_key)"
    by (rule u [THEN conjunct2, THEN conjunct1, THEN mp]) (rule f)
  from d c2 f c3 show ?thesis by (intro conjI) simp_all
qed

text \<open>
  Claim C9. The Extractor's handler returns the event's \<^verbatim>\<open>bucket\<close> and \<^verbatim>\<open>key\<close> unchanged, on
  success and on failure. When the Validator's handler returns a dictionary with a
  \<^verbatim>\<open>valid\<close> flag, its \<^verbatim>\<open>bucket\<close> and \<^verbatim>\<open>key\<close> are the ones the event names, which for an event
  without \<^verbatim>\<open>Records\<close> are its top-level \<^verbatim>\<open>bucket\<close> and \<^verbatim>\<open>key\<close>.
\<close>

theorem bucket_and_key_unchanged:
  "(extractor_handler env event = Inr r \<and> map_of event ''bucket'' = Some b \<and>
      map_of event ''key'' = Some k \<longrightarrow>
      map_of r ''bucket'' = Some b \<and> map_of r ''key'' = Some k) \<and>
   (validator_handler env event = Inr r \<and> map_of r ''valid'' \<noteq> None \<longrightarrow>
      (\<exists>bucket key. event_document event = Inr (bucket, key) \<and>
         map_of r ''bucket'' = Some bucket \<and> map_of r ''key'' = Some key)) \<and>
   (map_of event ''Records'' = None \<and> map_of event ''bucket'' = Some b \<and>
      map_of event ''key'' = Some k \<longrightarrow> event_document event = Inr (b, k))"
proof (intro conjI impI)
  assume "extractor_handler env event = Inr r \<and> map_of event ''bucket'' = Some b \<and>
      map_of event ''key'' = Some k"
  then have h: "extractor_handler env event = Inr r" and b: "map_of event ''bucket'' = Some b"
    and k: "map_of event ''key'' = Some k" by simp_all
  have "map_of r ''bucket'' = Some b \<and> map_of r ''key'' = Some k"
  proof (cases "extractor_try env event")
    case (Inl e)
    with h b k show ?thesis
      by (auto simp: extractor_handler_def failure_response_def dict_get_def split: sum.splits)
  next
    case (Inr r')
    from extractor_try_result [OF Inr] Inr h b k show ?thesis
      by (auto simp: extractor_handler_def)
  qed
  then show "map_of r ''bucket'' = Some b" and "map_of r ''key'' = Some k" by simp_all
next
  assume "validator_handler env event = Inr r \<and> map_of r ''valid'' \<noteq> None"
  then have h: "validator_handler env event = Inr r" and v: "map_of r ''valid'' \<noteq> None"
    by simp_all
  show "\<exists>bucket key. event_document event = Inr (bucket, key) \<and>
         map_of r ''bucket'' = Some bucket \<and> map_of r ''key'' = Some key"
  proof (cases "validator_try env event")
    case (Inl e)
    with h v show ?thesis by (auto simp: validator_handler_def error_response_def)
  next
    case (Inr r')
    from validator_try_result [OF Inr] Inr h show ?thesis
      by (auto simp: validator_handler_def)
  qed
next
  assume "map_of event ''Records'' = None \<and> map_of event ''bucket'' = Some b \<and>
      map_of event ''key'' = Some k"
  then show "event_document event = Inr (b, k)"
    by (simp add: event_document_top_level dict_get_def)
qed

theorem bucket_and_key_unchanged_witness:
  "extractor_handler (stub_env ''%PDF'' (Inr statement_text)) lost_event =
     Inr (failure_response lost_event (JInt 1) no_such_key) \<and>
   map_of (failure_response lost_event (JInt 1) no_such_key) ''bucket'' = Some (JStr ''docs'') \<and>
   map_of (failure_response lost_event (JInt 1) no_such_key) ''key'' = Some (JStr ''lost.pdf'') \<and>
   validator_handler (stub_env ''%PDF'' (Inr ''{\"is_bank_statement\": true}'')) records_event =
     Inr [(''bucket'', JStr ''docs''), (''key'', JStr ''statement.pdf''), (''valid'', JBool True)] \<and>
   event_document records_event = Inr (JStr ''docs'', JStr ''statement.pdf'') \<and>
   event_document step_event = Inr (JStr ''docs'', JStr ''statement.pdf'')"
proof -
  let ?e = "stub_env ''%PDF'' (Inr statement_text)"
  let ?v = "stub_env ''%PDF'' (Inr ''{\"is_bank_statement\": true}'')"
  let ?r = "[(''bucket'', JStr ''docs''), (''key'', JStr ''statement.pdf''), (''valid'', JBool True)] :: rat dict"
  have "extractor_try ?e lost_event = Inl no_such_key"
    by (rule extractor_try_store_fault [OF _ _ _ stub_get_object(2)])
       (simp_all add: lost_event_def stub_json_dumps)
  moreover have "next_retry_count ?e lost_event = Inr (JInt 1)"
    by (rule next_retry_count_missing) (simp add: lost_event_def)
  ultimately have h1:
    "extractor_handler ?e lost_event = Inr (failure_response lost_event (JInt 1) no_such_key)"
    by (simp add: extractor_handler_def)
  have b: "map_of lost_event ''bucket'' = Some (JStr ''docs'')"
    and k: "map_of lost_event ''key'' = Some (JStr ''lost.pdf'')"
    by (simp_all add: lost_event_def)
  have "event_document records_event = Inr (JStr ''docs'', JStr ''statement.pdf'')"
    by (rule event_document_record [where rest = "[]" and s3_event = s3_record])
       (simp_all add: records_event_def s3_record_def dict_getitem_def)
  from validator_handler_fetched [OF this _ _ stub_get_object(1)]
  have h2: "validator_handler ?v records_event = Inr ?r"
    by (simp add: validate_bank_statement_def stub_true_reply)
  have v: "map_of ?r ''valid'' \<noteq> None" by simp
  have s: "map_of step_event ''Records'' = None \<and> map_of step_event ''bucket'' = Some (JStr ''docs'') \<and>
      map_of step_event ''key'' = Some (JStr ''statement.pdf'')"
    by (simp add: step_event_def)
  note t1 = bucket_and_key_unchanged [of ?e lost_event "failure_response lost_event (JInt 1) no_such_key"
      "JStr ''docs''" "JStr ''lost.pdf''"]
  note t2 = bucket_and_key_unchanged [of ?v records_event ?r "JStr ''docs''" "JStr ''statement.pdf''"]
  note t3 = bucket_and_key_unchanged [of ?v step_event ?r "JStr ''docs''" "JStr ''statement.pdf''"]
  from t1 h1 b k have c1: "map_of (failure_response lost_event (JInt 1) no_such_key) ''bucket'' = Some (JStr ''docs'') \<and>
   map_of (failure_response lost_event (JInt 1) no_such_key) ''key'' = Some (JStr ''lost.pdf'')"
    by blast
  from t2 h2 v obtain bucket key where d: "event_document records_event = Inr (bucket, key)"
    "map_of ?r ''bucket'' = Some bucket" "map_of ?r ''key'' = Some key" by blast
  then have c2: "event_document records_event = Inr (JStr ''docs'', JStr ''statement.pdf'')" by simp
  from t3 s have c3: "event_document step_event = Inr (JStr ''docs'', JStr ''statement.pdf'')" by blast
  from h1 c1 h2 c2 c3 show ?thesis by blast
qed



end
